theory Spec2Isabelle
  imports Main "HOL-Library.Word"
begin

section \<open>DNS messages\<close>

text \<open>
  The message types of the DNS library used by \<^verbatim>\<open>doh_service.go\<close>. A question is
  (name, type, class); a resource record is kept as its header fields and its raw data.
\<close>

type_synonym bytes = "8 word list"

record Question =
  Name :: string
  Qtype :: "16 word"
  Qclass :: "16 word"

record RR =
  RR_Name :: string
  RR_Rrtype :: "16 word"
  RR_Class :: "16 word"
  RR_Ttl :: "32 word"
  RR_Rdata :: bytes

record Msg =
  Id_hdr :: "16 word"
  Response :: bool
  Opcode :: int
  Authoritative :: bool
  Truncated :: bool
  RecursionDesired :: bool
  RecursionAvailable :: bool
  Zero_hdr :: bool
  AuthenticatedData :: bool
  CheckingDisabled :: bool
  Rcode :: int
  Compress :: bool
  Question :: "Question list"
  Answer :: "RR list"
  Ns :: "RR list"
  Extra :: "RR list"

definition TypeA :: "16 word" where
  "TypeA = 1"

definition ClassINET :: "16 word" where
  "ClassINET = 1"

definition OpcodeQuery :: int where
  "OpcodeQuery = 0"

definition RcodeSuccess :: int where
  "RcodeSuccess = 0"

definition RcodeServerFailure :: int where
  "RcodeServerFailure = 2"

definition CLOUDFLARE_DNS :: string where
  "CLOUDFLARE_DNS = ''1.1.1.1:53''"

definition CLOUDFLARE_DOH_HOST :: string where
  "CLOUDFLARE_DOH_HOST = ''cloudflare-dns.com.''"

definition CLOUDFLARE_DOH_URL :: string where
  "CLOUDFLARE_DOH_URL = ''https://cloudflare-dns.com/dns-query''"

text \<open>The zero value of a message, as \<^verbatim>\<open>new(dns.Msg)\<close> allocates it.\<close>

definition new_Msg :: Msg where
  "new_Msg = \<lparr>Id_hdr = 0, Response = False, Opcode = 0, Authoritative = False,
     Truncated = False, RecursionDesired = False, RecursionAvailable = False,
     Zero_hdr = False, AuthenticatedData = False, CheckingDisabled = False, Rcode = 0,
     Compress = False, Question = [], Answer = [], Ns = [], Extra = []\<rparr>"

text \<open>
  Modelled from the spec: \<^verbatim>\<open>SetReply\<close> is a method of the DNS library's message type,
  whose source is not under src/. The spec (4.4) says the reply-identifying fields are
  rewritten to match the incoming query's transaction context; the model follows the
  library's documented behaviour: the transaction ID and the opcode are copied from the
  request, the response flag is set, the recursion-desired and checking-disabled bits
  are copied for a standard query, the response code is set to success, and the question
  section becomes the request's first question when the request has one. No other field
  is touched. In Go the method mutates its receiver; here it returns the new contents.
\<close>

definition SetReply :: "Msg \<Rightarrow> Msg \<Rightarrow> Msg" where
  "SetReply d request =
     (let d1 = d\<lparr>Id_hdr := Id_hdr request, Response := True, Opcode := Opcode request\<rparr>;
          d2 = (if Opcode d1 = OpcodeQuery
                then d1\<lparr>RecursionDesired := RecursionDesired request,
                        CheckingDisabled := CheckingDisabled request\<rparr>
                else d1);
          d3 = d2\<lparr>Rcode := RcodeSuccess\<rparr>
      in if length (Question request) > 0
         then d3\<lparr>Question := [Question request ! 0]\<rparr>
         else d3)"

text \<open>
  Modelled from the spec: \<^verbatim>\<open>SetRcode\<close> is the library's \<^verbatim>\<open>SetReply\<close> followed by
  storing the given response code.
\<close>

definition SetRcode :: "Msg \<Rightarrow> Msg \<Rightarrow> int \<Rightarrow> Msg" where
  "SetRcode d request rcode = (SetReply d request)\<lparr>Rcode := rcode\<rparr>"

section \<open>Errors, effects and the world\<close>

text \<open>
  Go's \<^verbatim>\<open>error\<close> values: a \<^verbatim>\<open>DohError\<close> made by \<^verbatim>\<open>newErr\<close>, or an error value that
  an external library returned (network, TLS, I/O, codec), identified by its text.
\<close>

datatype error = DohError string | LibError string

definition newErr :: "string \<Rightarrow> error" where
  "newErr msg = DohError msg"

type_synonym addr = nat

text \<open>
  An HTTP request as the client puts it on the wire (method, URL and body; headers are
  not part of the record), and a response: status, the URL that its Location header
  resolves to, if it has one, and the outcome of reading its body to the end.
\<close>

record HttpRequest =
  Method :: string
  URL :: string
  ReqBody :: bytes

record HttpResponse =
  StatusCode :: int
  Status :: string
  Location :: "string option"
  Body :: "error + bytes"

text \<open>
  Every call that leaves the handler is recorded, in order, in the world's trace: cache
  reads and writes, codec calls, the call of the HTTP client's \<^verbatim>\<open>Post\<close>, the reply
  written to the requester, and the logging calls. \<^verbatim>\<open>WriteErrorLog\<close> and \<^verbatim>\<open>WriteErrorLogMsg\<close> are the repository's
  error-logging functions; their bodies are not under src/, so a call is only recorded.
\<close>

datatype event =
    EvCacheGet string
  | EvCacheSet string addr
  | EvPack Msg
  | EvPost string string bytes
  | EvUnpack bytes
  | EvWriteMsg Msg
  | EvLogPrintf string
  | EvWriteErrorLog error
  | EvWriteErrorLogMsg string error
  | EvSleep nat
  | EvExchange Msg string
  | EvCacheNew int int
  | EvListenAndServe string string

text \<open>
  The world: the heap of message objects (\<^verbatim>\<open>*dns.Msg\<close> pointers are addresses; \<open>nxt\<close>
  is the next unallocated address), the items of the cache object that
  \<^verbatim>\<open>SecHandler.NameCache\<close> points to (each item is a message pointer and its expiration
  instant), the trace, and the HTTP requests that the client has sent, in order (the
  request of each \<^verbatim>\<open>Post\<close> call and those the client sends by itself when it follows
  redirects). The handler is passed by value, but both of its pointers refer
  to shared objects, so their contents live here. Every address holds a message: nil
  pointers are not modelled, since \<^verbatim>\<open>RunDNS\<close> builds the handler only on a resolver
  reply and the cache only receives messages that were decoded.
\<close>

record World =
  heap :: "addr \<Rightarrow> Msg"
  nxt :: addr
  NameCache :: "string \<rightharpoonup> addr \<times> int"
  trace :: "event list"
  sent_requests :: "HttpRequest list"

record SecHandler =
  ServiceType :: string
  Host :: addr

text \<open>
  What the external collaborators answer during one invocation of the handler: the wire
  codec, the network as the HTTP client sees it (the outcome of the \<open>n\<close>-th request,
  counted from 0, that the client sends during the call: a response, or the error that
  the client returns for a network or TLS failure), and the clock as the cache reads it
  in \<^verbatim>\<open>Get\<close> and in \<^verbatim>\<open>SetDefault\<close>.
\<close>

record Env =
  Pack :: "Msg \<Rightarrow> error + bytes"
  Unpack :: "bytes \<Rightarrow> error + Msg"
  RoundTrip :: "nat \<Rightarrow> HttpRequest \<Rightarrow> error + HttpResponse"
  nowGet :: int
  nowSet :: int

definition emit :: "event \<Rightarrow> World \<Rightarrow> World" where
  "emit e w = w\<lparr>trace := trace w @ [e]\<rparr>"

section \<open>The cache\<close>

text \<open>
  The cache is the external expiring-map library's, built by
  \<^verbatim>\<open>cache.New(1*time.Hour, 10*time.Minute)\<close>: an item written with \<^verbatim>\<open>SetDefault\<close>
  expires one hour after the write. \<^verbatim>\<open>Get\<close> reports an item as found when it is stored
  and not expired; an expiration that is not positive means that the item never expires.
  The periodic cleanup only removes items that \<^verbatim>\<open>Get\<close> already reports as missing, so
  it is not modelled. Instants are nanoseconds since the epoch.
\<close>

definition defaultExpiration :: int where
  "defaultExpiration = 3600 * 1000000000"

definition cleanupInterval :: int where
  "cleanupInterval = 600 * 1000000000"

definition expired :: "int \<Rightarrow> int \<Rightarrow> bool" where
  "expired now expiration = (expiration > 0 \<and> now > expiration)"

definition cache_Get :: "Env \<Rightarrow> string \<Rightarrow> World \<Rightarrow> addr option \<times> World" where
  "cache_Get env k w =
     (let w1 = emit (EvCacheGet k) w
      in case NameCache w k of
           None \<Rightarrow> (None, w1)
         | Some (x, expiration) \<Rightarrow>
             if expired (nowGet env) expiration then (None, w1) else (Some x, w1))"

definition cache_SetDefault :: "Env \<Rightarrow> string \<Rightarrow> addr \<Rightarrow> World \<Rightarrow> World" where
  "cache_SetDefault env k x w =
     (emit (EvCacheSet k x) w)\<lparr>NameCache := (NameCache w)(k \<mapsto> (x, nowSet env + defaultExpiration))\<rparr>"

section \<open>The HTTPS transport\<close>

text \<open>
  Modelled from the spec: \<^verbatim>\<open>client.Post\<close> is the standard library's HTTP client, whose
  source is not under src/. The spec (4.2) has a POST of the query bytes to the fixed
  URL; the model follows the library's documented behaviour for a client built without
  a redirect policy, as \<^verbatim>\<open>makeHttpsRequest\<close> builds it: the client sends the POST and
  follows redirects by itself. A 301, 302 or 303 response with a Location is followed by
  a GET without body (a GET or HEAD keeps its method); a 307 or 308 response with a
  Location is followed with the method unchanged and the body of the first request; any
  other response, and a redirect status without a Location, ends the call with that
  response. After 10 requests a further redirect ends the call with an error. The call
  returns the requests it sent and its result.
\<close>

definition redirect_next :: "HttpRequest \<Rightarrow> HttpRequest \<Rightarrow> HttpResponse \<Rightarrow> HttpRequest option" where
  "redirect_next ireq req resp =
     (case Location resp of
        None \<Rightarrow> None
      | Some loc \<Rightarrow>
          if StatusCode resp = 301 \<or> StatusCode resp = 302 \<or> StatusCode resp = 303 then
            Some \<lparr>Method = (if Method req \<noteq> ''GET'' \<and> Method req \<noteq> ''HEAD''
                           then ''GET'' else Method req),
                  URL = loc, ReqBody = []\<rparr>
          else if StatusCode resp = 307 \<or> StatusCode resp = 308 then
            Some \<lparr>Method = Method req, URL = loc, ReqBody = ReqBody ireq\<rparr>
          else None)"

function client_do ::
  "Env \<Rightarrow> HttpRequest \<Rightarrow> HttpRequest \<Rightarrow> nat \<Rightarrow> HttpRequest list \<times> (error + HttpResponse)" where
  "client_do env ireq req n =
     (case RoundTrip env n req of
        Inl err \<Rightarrow> ([req], Inl err)
      | Inr resp \<Rightarrow>
          (case redirect_next ireq req resp of
             None \<Rightarrow> ([req], Inr resp)
           | Some next \<Rightarrow>
               if Suc n \<ge> 10 then ([req], Inl (LibError ''stopped after 10 redirects''))
               else (case client_do env ireq next (Suc n) of
                       (reqs, res) \<Rightarrow> (req # reqs, res))))"
  by pat_completeness auto
termination
  by (relation "measure (\<lambda>(env, ireq, req, n). 10 - n)") auto

declare client_do.simps [simp del]

definition client_Post ::
  "Env \<Rightarrow> string \<Rightarrow> string \<Rightarrow> bytes \<Rightarrow> HttpRequest list \<times> (error + HttpResponse)" where
  "client_Post env url contentType body =
     (let ireq = \<lparr>Method = ''POST'', URL = url, ReqBody = body\<rparr>
      in client_do env ireq ireq 0)"

text \<open>
  One call of the client's \<^verbatim>\<open>Post\<close>. The client is built with certificate
  verification disabled; that and the closing of the response body have no counterpart
  here.
\<close>

definition record_sent :: "HttpRequest list \<Rightarrow> World \<Rightarrow> World" where
  "record_sent reqs w = w\<lparr>sent_requests := sent_requests w @ reqs\<rparr>"

definition makeHttpsRequest :: "Env \<Rightarrow> bytes \<Rightarrow> World \<Rightarrow> (error + bytes) \<times> World" where
  "makeHttpsRequest env wire w =
     (case client_Post env CLOUDFLARE_DOH_URL ''application/dns-udpwireformat'' wire of
        (reqs, res) \<Rightarrow>
          (let w1 = record_sent reqs
                      (emit (EvPost CLOUDFLARE_DOH_URL ''application/dns-udpwireformat'' wire) w)
           in case res of
                Inr resp \<Rightarrow>
                  if StatusCode resp \<noteq> 200
                  then (Inl (newErr (''HTTP error code '' @ Status resp)), w1)
                  else (case Body resp of
                          Inr respBody \<Rightarrow> (Inr respBody, w1)
                        | Inl err \<Rightarrow> (Inl err, w1))
              | Inl err \<Rightarrow> (Inl err, w1)))"

section \<open>The handler\<close>

text \<open>
  \<^verbatim>\<open>QueryOverHTTPS\<close> returns a pointer to a freshly allocated message on success. When
  decoding fails the allocated message is unreachable, so the heap is left as it was.
\<close>

definition QueryOverHTTPS :: "Env \<Rightarrow> Msg \<Rightarrow> World \<Rightarrow> (error + addr) \<times> World" where
  "QueryOverHTTPS env r w =
     (let w1 = emit (EvPack r) w
      in case Pack env r of
           Inr wire \<Rightarrow>
             (case makeHttpsRequest env wire w1 of
                (Inr resp, w2) \<Rightarrow>
                  (let w3 = emit (EvUnpack resp) w2
                   in case Unpack env resp of
                        Inr m \<Rightarrow> (Inr (nxt w3), w3\<lparr>heap := (heap w3)(nxt w3 := m), nxt := Suc (nxt w3)\<rparr>)
                      | Inl err \<Rightarrow> (Inl (newErr ''Can't unpack message from wireformat.''), w3))
              | (Inl err, w2) \<Rightarrow> (Inl (newErr ''HTTPS Request failed.''), w2))
         | Inl err \<Rightarrow> (Inl (newErr ''Can't pack message from wireformat.''), w1))"

text \<open>\<^verbatim>\<open>m.SetReply(r)\<close> through a pointer: the object at the address is overwritten.\<close>

definition SetReply_at :: "addr \<Rightarrow> Msg \<Rightarrow> World \<Rightarrow> World" where
  "SetReply_at a r w = w\<lparr>heap := (heap w)(a := SetReply (heap w a) r)\<rparr>"

text \<open>
  \<^verbatim>\<open>w.WriteMsg(m)\<close>: the contents of the object at the address go to the requester.
  The handler ignores the error that the write may return.
\<close>

definition WriteMsg :: "addr \<Rightarrow> World \<Rightarrow> World" where
  "WriteMsg a w = emit (EvWriteMsg (heap w a)) w"

text \<open>
  Modelled from the spec: \<^verbatim>\<open>dns.HandleFailed\<close> is the library's failure handler, whose
  source is not under src/: it builds a new message, makes it a reply to the request
  with the server-failure response code, and writes it. The message is unreachable
  afterwards, so it is not kept on the heap.
\<close>

definition HandleFailed :: "Msg \<Rightarrow> World \<Rightarrow> World" where
  "HandleFailed r w = emit (EvWriteMsg (SetRcode new_Msg r RcodeServerFailure)) w"

definition ServeDNS :: "Env \<Rightarrow> SecHandler \<Rightarrow> Msg \<Rightarrow> World \<Rightarrow> World" where
  "ServeDNS env s r w =
     (if length (Question r) > 0 \<and> Qtype (Question r ! 0) = TypeA then
        if Name (Question r ! 0) = CLOUDFLARE_DOH_HOST then
          WriteMsg (Host s) (SetReply_at (Host s) r w)
        else
          (let requestedName = Name (Question r ! 0)
           in case cache_Get env requestedName w of
                (Some cachedMsg, w1) \<Rightarrow> WriteMsg cachedMsg (SetReply_at cachedMsg r w1)
              | (None, w1) \<Rightarrow>
                  (case QueryOverHTTPS env r w1 of
                     (Inr respMsg, w2) \<Rightarrow>
                       WriteMsg respMsg
                         (SetReply_at respMsg r (cache_SetDefault env requestedName respMsg w2))
                   | (Inl err, w2) \<Rightarrow>
                       HandleFailed r
                         (emit (EvWriteErrorLog err)
                            (emit (EvLogPrintf (''requested name = '' @ requestedName)) w2))))
      else
        (case QueryOverHTTPS env r w of
           (Inr respMsg, w1) \<Rightarrow> WriteMsg respMsg (SetReply_at respMsg r w1)
         | (Inl err, w1) \<Rightarrow> HandleFailed r w1))"

section \<open>Bootstrap and start\<close>

text \<open>\<^verbatim>\<open>strconv.Itoa\<close> and the \<^verbatim>\<open>%d\<close> verb: the decimal digits of an integer.\<close>

fun digits :: "nat \<Rightarrow> string" where
  "digits n = (if n < 10 then [''0123456789'' ! n]
               else digits (n div 10) @ [''0123456789'' ! (n mod 10)])"

declare digits.simps [simp del]

definition Itoa :: "int \<Rightarrow> string" where
  "Itoa i = (if i < 0 then CHR ''-'' # digits (nat (- i)) else digits (nat i))"

text \<open>
  What the plain-DNS resolver answers during one run of \<^verbatim>\<open>RunDNS\<close>: the outcome of the
  \<open>k\<close>-th call of \<^verbatim>\<open>client.Exchange\<close> (counted from 0), and the random transaction ID
  the library draws for the \<open>k\<close>-th query.
\<close>

record BootEnv =
  Exchange :: "nat \<Rightarrow> Msg \<Rightarrow> string \<Rightarrow> error + Msg"
  freshId :: "nat \<Rightarrow> 16 word"

text \<open>
  Modelled from the spec: \<^verbatim>\<open>SetQuestion\<close> is the library's method that makes a message
  a recursive query with one question of class INET and a fresh transaction ID; its source
  is not under src/.
\<close>

definition SetQuestion :: "Msg \<Rightarrow> 16 word \<Rightarrow> string \<Rightarrow> 16 word \<Rightarrow> Msg" where
  "SetQuestion d fresh z t =
     d\<lparr>Id_hdr := fresh, RecursionDesired := True,
       Question := [\<lparr>Name = z, Qtype = t, Qclass = ClassINET\<rparr>]\<rparr>"

definition getDohHostAddr :: "BootEnv \<Rightarrow> nat \<Rightarrow> World \<Rightarrow> (error + addr) \<times> World" where
  "getDohHostAddr env k w =
     (let m = SetQuestion new_Msg (freshId env k) CLOUDFLARE_DOH_HOST TypeA;
          w1 = emit (EvExchange m CLOUDFLARE_DNS) w
      in case Exchange env k m CLOUDFLARE_DNS of
           Inr r \<Rightarrow> (Inr (nxt w1), w1\<lparr>heap := (heap w1)(nxt w1 := r), nxt := Suc (nxt w1)\<rparr>)
         | Inl err \<Rightarrow> (Inl err, w1))"

definition bootstrap_failed :: string where
  "bootstrap_failed = ''Failed to obtain Cloudflare's DOH server address.''"

text \<open>
  The retry loop \<^verbatim>\<open>for i := 1; i < 6; i++\<close> of \<^verbatim>\<open>RunDNS\<close>. The error argument is the
  value of \<^verbatim>\<open>e\<close> on entry to the iteration; iteration \<open>i\<close> makes the \<open>i\<close>-th call
  of the resolver.
\<close>

function retry_loop :: "BootEnv \<Rightarrow> nat \<Rightarrow> error \<Rightarrow> World \<Rightarrow> (error + addr) \<times> World" where
  "retry_loop env i e w =
     (if i < 6 then
        (let w1 = emit (EvSleep 1) w;
             w2 = emit (EvLogPrintf (''retry '' @ Itoa (int i) @ ''...'')) w1
         in case getDohHostAddr env i w2 of
              (Inl e', w3) \<Rightarrow>
                retry_loop env (i + 1) e' (emit (EvWriteErrorLogMsg bootstrap_failed e') w3)
            | (Inr h, w3) \<Rightarrow> (Inr h, w3))
      else (Inl e, w))"
  by pat_completeness auto
termination
  by (relation "measure (\<lambda>(env, i, e, w). 6 - i)") auto

declare retry_loop.simps [simp del]

record Server =
  Addr :: string
  Net :: string
  Handler :: SecHandler

text \<open>
  \<^verbatim>\<open>RunDNS\<close> returns the stop function of the server it started, or an error. The
  server is returned here in place of its stop function. The listener runs in its own
  goroutine; starting it is recorded in the trace.
\<close>

definition RunDNS :: "BootEnv \<Rightarrow> int \<Rightarrow> World \<Rightarrow> (error + Server) \<times> World" where
  "RunDNS env port w =
     (case (case getDohHostAddr env 0 w of
              (Inl e, w1) \<Rightarrow> retry_loop env 1 e (emit (EvWriteErrorLogMsg bootstrap_failed e) w1)
            | (Inr h, w1) \<Rightarrow> (Inr h, w1)) of
        (Inl e, w2) \<Rightarrow>
          (Inl (newErr ''Failed to obtain Cloudflare's DOH server address. The DNS service could not be started.''), w2)
      | (Inr h, w2) \<Rightarrow>
          (let w3 = (emit (EvCacheNew defaultExpiration cleanupInterval) w2)
                      \<lparr>NameCache := Map.empty\<rparr>;
               handler = \<lparr>ServiceType = ''UDP'', Host = h\<rparr>;
               srv = \<lparr>Addr = '':'' @ Itoa port, Net = ''udp'', Handler = handler\<rparr>
           in (Inr srv, emit (EvListenAndServe (Addr srv) (Net srv)) w3)))"

section \<open>Runs and observations\<close>

text \<open>A sequence of queries handled one after the other by the same handler.\<close>

fun run :: "SecHandler \<Rightarrow> (Env \<times> Msg) list \<Rightarrow> World \<Rightarrow> World" where
  "run s [] w = w"
| "run s ((env, r) # ops) w = run s ops (ServeDNS env s r w)"

text \<open>The events that a step from \<open>w\<close> to \<open>w'\<close> added to the trace.\<close>

definition new_events :: "World \<Rightarrow> World \<Rightarrow> event list" where
  "new_events w w' = drop (length (trace w)) (trace w')"

fun is_Post :: "event \<Rightarrow> bool" where
  "is_Post (EvPost url ct body) = True"
| "is_Post _ = False"

fun is_Pack :: "event \<Rightarrow> bool" where
  "is_Pack (EvPack m) = True"
| "is_Pack _ = False"

fun is_transport_event :: "event \<Rightarrow> bool" where
  "is_transport_event (EvPost url ct body) = True"
| "is_transport_event (EvUnpack body) = True"
| "is_transport_event _ = False"

fun is_WriteMsg :: "event \<Rightarrow> bool" where
  "is_WriteMsg (EvWriteMsg m) = True"
| "is_WriteMsg _ = False"

fun is_cache_event :: "event \<Rightarrow> bool" where
  "is_cache_event (EvCacheGet k) = True"
| "is_cache_event (EvCacheSet k x) = True"
| "is_cache_event _ = False"

fun is_error_log :: "event \<Rightarrow> bool" where
  "is_error_log (EvWriteErrorLog e) = True"
| "is_error_log (EvWriteErrorLogMsg msg e) = True"
| "is_error_log _ = False"

fun is_Exchange :: "event \<Rightarrow> bool" where
  "is_Exchange (EvExchange m server) = True"
| "is_Exchange _ = False"

fun is_Sleep :: "event \<Rightarrow> bool" where
  "is_Sleep (EvSleep d) = True"
| "is_Sleep _ = False"

fun is_start :: "event \<Rightarrow> bool" where
  "is_start (EvCacheNew d c) = True"
| "is_start (EvListenAndServe a n) = True"
| "is_start _ = False"

fun cache_set_keys :: "event list \<Rightarrow> string list" where
  "cache_set_keys [] = []"
| "cache_set_keys (EvCacheSet k x # es) = k # cache_set_keys es"
| "cache_set_keys (e # es) = cache_set_keys es"

fun is_attempt_event :: "event \<Rightarrow> bool" where
  "is_attempt_event (EvSleep d) = True"
| "is_attempt_event (EvExchange m server) = True"
| "is_attempt_event _ = False"

text \<open>
  The query that the \<open>k\<close>-th bootstrap attempt sends, what the resolver answers to it,
  and the resolver calls and sleeps of a bootstrap whose last attempt is the \<open>k\<close>-th:
  the first attempt, then a one-second sleep before every further attempt.
\<close>

definition bootstrap_query :: "BootEnv \<Rightarrow> nat \<Rightarrow> Msg" where
  "bootstrap_query env k = SetQuestion new_Msg (freshId env k) CLOUDFLARE_DOH_HOST TypeA"

definition attempt :: "BootEnv \<Rightarrow> nat \<Rightarrow> error + Msg" where
  "attempt env k = Exchange env k (bootstrap_query env k) CLOUDFLARE_DNS"

definition retry_attempts :: "BootEnv \<Rightarrow> nat \<Rightarrow> nat \<Rightarrow> event list" where
  "retry_attempts env i k =
     concat (map (\<lambda>j. [EvSleep 1, EvExchange (bootstrap_query env j) CLOUDFLARE_DNS]) [i..<k])"

definition attempts_upto :: "BootEnv \<Rightarrow> nat \<Rightarrow> event list" where
  "attempts_upto env k =
     EvExchange (bootstrap_query env 0) CLOUDFLARE_DNS # retry_attempts env 1 (Suc k)"

text \<open>
  The request that \<^verbatim>\<open>makeHttpsRequest\<close> asks the client to send, the requests the
  client sends in that call, and the call's result.
\<close>

definition post_request :: "bytes \<Rightarrow> HttpRequest" where
  "post_request body = \<lparr>Method = ''POST'', URL = CLOUDFLARE_DOH_URL, ReqBody = body\<rparr>"

definition client_requests :: "Env \<Rightarrow> bytes \<Rightarrow> HttpRequest list" where
  "client_requests env body =
     fst (client_Post env CLOUDFLARE_DOH_URL ''application/dns-udpwireformat'' body)"

definition client_result :: "Env \<Rightarrow> bytes \<Rightarrow> error + HttpResponse" where
  "client_result env body =
     snd (client_Post env CLOUDFLARE_DOH_URL ''application/dns-udpwireformat'' body)"

text \<open>The guards of \<^verbatim>\<open>ServeDNS\<close>, named.\<close>

definition is_A_query :: "Msg \<Rightarrow> bool" where
  "is_A_query r = (length (Question r) > 0 \<and> Qtype (Question r ! 0) = TypeA)"

definition first_question_A_for_host :: "Msg \<Rightarrow> bool" where
  "first_question_A_for_host r =
     (is_A_query r \<and> Name (Question r ! 0) = CLOUDFLARE_DOH_HOST)"

definition A_query_names :: "(Env \<times> Msg) list \<Rightarrow> string list" where
  "A_query_names ops = map (\<lambda>(env, r). Name (Question r ! 0)) (filter (\<lambda>(env, r). is_A_query r) ops)"

text \<open>
  The self-host shortcut, as it is observed: the only thing the invocation does is to
  write the host record, made a reply to the query.
\<close>

definition self_host_shortcut :: "Env \<Rightarrow> SecHandler \<Rightarrow> Msg \<Rightarrow> World \<Rightarrow> bool" where
  "self_host_shortcut env s r w =
     (new_events w (ServeDNS env s r w) = [EvWriteMsg (SetReply (heap w (Host s)) r)])"

text \<open>
  The spec's wording of the shortcut's condition: the query is a single A-type question
  for the upstream's own hostname.
\<close>

definition single_A_question_for_host :: "Msg \<Rightarrow> bool" where
  "single_A_question_for_host r =
     (case Question r of
        [q] \<Rightarrow> Qtype q = TypeA \<and> Name q = CLOUDFLARE_DOH_HOST
      | _ \<Rightarrow> False)"

text \<open>
  Pointers are well formed for a handler: the host record and every cached message are
  allocated, and no cached pointer is the host record's. \<^verbatim>\<open>RunDNS\<close> establishes this
  and \<^verbatim>\<open>ServeDNS\<close> keeps it, since the cache only ever receives freshly allocated
  messages.
\<close>

definition wf_world :: "SecHandler \<Rightarrow> World \<Rightarrow> bool" where
  "wf_world s w =
     (Host s < nxt w \<and>
      (\<forall>k a e. NameCache w k = Some (a, e) \<longrightarrow> a < nxt w \<and> a \<noteq> Host s))"

text \<open>The fields of a message that \<^verbatim>\<open>SetReply\<close> does not write.\<close>

definition same_records :: "Msg \<Rightarrow> Msg \<Rightarrow> bool" where
  "same_records m m' =
     (Answer m' = Answer m \<and> Ns m' = Ns m \<and> Extra m' = Extra m \<and>
      Authoritative m' = Authoritative m \<and> Truncated m' = Truncated m \<and>
      RecursionAvailable m' = RecursionAvailable m \<and> Zero_hdr m' = Zero_hdr m \<and>
      AuthenticatedData m' = AuthenticatedData m \<and> Compress m' = Compress m)"

section \<open>Concrete inputs\<close>

text \<open>A world, queries and collaborator behaviours on which the theorems below are run.\<close>

definition w0 :: World where
  "w0 = \<lparr>heap = (\<lambda>a. new_Msg), nxt = 0, NameCache = Map.empty, trace = [],
     sent_requests = []\<rparr>"

definition a_example :: RR where
  "a_example = \<lparr>RR_Name = ''example.com.'', RR_Rrtype = 1, RR_Class = 1, RR_Ttl = 300,
     RR_Rdata = [93, 184, 216, 34]\<rparr>"

definition q_example :: Msg where
  "q_example = new_Msg\<lparr>Id_hdr := 4660, RecursionDesired := True,
     Question := [\<lparr>Name = ''example.com.'', Qtype = 1, Qclass = 1\<rparr>]\<rparr>"

definition reply_example :: Msg where
  "reply_example = new_Msg\<lparr>Id_hdr := 0, Response := True, RecursionDesired := True,
     RecursionAvailable := True,
     Question := [\<lparr>Name = ''example.com.'', Qtype = 1, Qclass = 1\<rparr>],
     Answer := [a_example]\<rparr>"

definition resp_ok :: HttpResponse where
  "resp_ok = \<lparr>StatusCode = 200, Status = ''200 OK'', Location = None,
     Body = Inr [4, 5, 6]\<rparr>"

definition resp_503 :: HttpResponse where
  "resp_503 = \<lparr>StatusCode = 503, Status = ''503 Service Unavailable'', Location = None,
     Body = Inr [7]\<rparr>"

definition env_ok :: Env where
  "env_ok = \<lparr>Pack = (\<lambda>m. Inr [1, 2, 3]), Unpack = (\<lambda>b. Inr reply_example),
     RoundTrip = (\<lambda>n req. Inr resp_ok), nowGet = 1000, nowSet = 2000\<rparr>"

definition env_503 :: Env where
  "env_503 = env_ok\<lparr>RoundTrip := (\<lambda>n req. Inr resp_503)\<rparr>"

definition env_neterr :: Env where
  "env_neterr = env_ok\<lparr>RoundTrip := (\<lambda>n req. Inl (LibError ''dial tcp: i/o timeout''))\<rparr>"

definition env_packerr :: Env where
  "env_packerr = env_ok\<lparr>Pack := (\<lambda>m. Inl (LibError ''dns: bad rdata''))\<rparr>"

definition env_unpackerr :: Env where
  "env_unpackerr = env_ok\<lparr>Unpack := (\<lambda>b. Inl (LibError ''dns: overflow unpacking''))\<rparr>"

definition q_aaaa :: Msg where
  "q_aaaa = new_Msg\<lparr>Id_hdr := 22136, RecursionDesired := True,
     Question := [\<lparr>Name = ''example.com.'', Qtype = 28, Qclass = 1\<rparr>]\<rparr>"

definition q_host :: Msg where
  "q_host = new_Msg\<lparr>Id_hdr := 48879, RecursionDesired := True,
     Question := [\<lparr>Name = ''cloudflare-dns.com.'', Qtype = 1, Qclass = 1\<rparr>]\<rparr>"

definition q_two :: Msg where
  "q_two = new_Msg\<lparr>Id_hdr := 7, RecursionDesired := True,
     Question := [\<lparr>Name = ''cloudflare-dns.com.'', Qtype = 1, Qclass = 1\<rparr>,
                  \<lparr>Name = ''example.com.'', Qtype = 28, Qclass = 1\<rparr>]\<rparr>"

definition a_host :: RR where
  "a_host = \<lparr>RR_Name = ''cloudflare-dns.com.'', RR_Rrtype = 1, RR_Class = 1, RR_Ttl = 60,
     RR_Rdata = [104, 16, 248, 249]\<rparr>"

definition host_reply :: Msg where
  "host_reply = new_Msg\<lparr>Id_hdr := 99, Response := True, RecursionDesired := True,
     RecursionAvailable := True,
     Question := [\<lparr>Name = ''cloudflare-dns.com.'', Qtype = 1, Qclass = 1\<rparr>],
     Answer := [a_host]\<rparr>"

definition nxdomain_reply :: Msg where
  "nxdomain_reply = new_Msg\<lparr>Response := True, RecursionAvailable := True, Rcode := 3,
     Question := [\<lparr>Name = ''example.com.'', Qtype = 1, Qclass = 1\<rparr>]\<rparr>"

definition env_nxdomain :: Env where
  "env_nxdomain = env_ok\<lparr>Unpack := (\<lambda>b. Inr nxdomain_reply)\<rparr>"

definition s0 :: SecHandler where
  "s0 = \<lparr>ServiceType = ''UDP'', Host = 0\<rparr>"

definition w_host :: World where
  "w_host = \<lparr>heap = (\<lambda>a. new_Msg)(0 := host_reply), nxt = 1, NameCache = Map.empty,
     trace = [], sent_requests = []\<rparr>"

definition w_cached :: World where
  "w_cached = \<lparr>heap = (\<lambda>a. new_Msg)(0 := host_reply, 1 := reply_example), nxt = 2,
     NameCache = [''example.com.'' \<mapsto> (1, 5000)], trace = [], sent_requests = []\<rparr>"

definition benv_ok :: BootEnv where
  "benv_ok = \<lparr>Exchange = (\<lambda>k m server. Inr host_reply), freshId = (\<lambda>k. 99)\<rparr>"

definition srv_53 :: Server where
  "srv_53 = \<lparr>Addr = '':53'', Net = ''udp'', Handler = s0\<rparr>"

definition benv_down :: BootEnv where
  "benv_down = \<lparr>Exchange = (\<lambda>k m server. Inl (LibError ''unreachable host'')),
     freshId = (\<lambda>k. 99)\<rparr>"

definition benv_third :: BootEnv where
  "benv_third = \<lparr>Exchange = (\<lambda>k m server. if k < 2 then Inl (LibError ''unreachable host'')
                                            else Inr host_reply),
     freshId = (\<lambda>k. 99)\<rparr>"

definition resp_307 :: HttpResponse where
  "resp_307 = \<lparr>StatusCode = 307, Status = ''307 Temporary Redirect'',
     Location = Some ''https://mirror.example/dns-query'', Body = Inr []\<rparr>"

definition env_307 :: Env where
  "env_307 = env_ok\<lparr>RoundTrip := (\<lambda>n req. if n = 0 then Inr resp_307 else Inr resp_ok)\<rparr>"

definition q_host_notify :: Msg where
  "q_host_notify = q_host\<lparr>Opcode := 4, RecursionDesired := False\<rparr>"

section \<open>Transport and forwarding\<close>

lemma new_events_emit [simp]: "new_events w (emit e w) = [e]"
  by (simp add: new_events_def emit_def)

lemma new_events_append: "trace w' = trace w @ es \<Longrightarrow> new_events w w' = es"
  by (simp add: new_events_def)

lemma client_do_error:
  "RoundTrip env n req = Inl e \<Longrightarrow> client_do env ireq req n = ([req], Inl e)"
  by (subst client_do.simps) simp

lemma client_do_final:
  "RoundTrip env n req = Inr resp \<Longrightarrow> redirect_next ireq req resp = None \<Longrightarrow>
   client_do env ireq req n = ([req], Inr resp)"
  by (subst client_do.simps) simp

lemma client_do_limit:
  "RoundTrip env n req = Inr resp \<Longrightarrow> redirect_next ireq req resp = Some follow \<Longrightarrow>
   10 \<le> Suc n \<Longrightarrow>
   client_do env ireq req n = ([req], Inl (LibError ''stopped after 10 redirects''))"
  by (subst client_do.simps) simp

lemma client_do_follow:
  "RoundTrip env n req = Inr resp \<Longrightarrow> redirect_next ireq req resp = Some follow \<Longrightarrow>
   Suc n < 10 \<Longrightarrow>
   client_do env ireq req n =
     (req # fst (client_do env ireq follow (Suc n)), snd (client_do env ireq follow (Suc n)))"
  by (subst client_do.simps) (simp split: prod.splits)

lemma client_do_first:
  "fst (client_do env ireq req n) \<noteq> [] \<and> hd (fst (client_do env ireq req n)) = req"
  by (subst (1 2) client_do.simps) (simp split: sum.splits option.splits prod.splits)

lemma client_do_length:
  "n < 10 \<Longrightarrow> length (fst (client_do env ireq req n)) \<le> 10 - n"
proof (induction env ireq req n rule: client_do.induct)
  case (1 env ireq req n)
  show ?case
  proof (cases "RoundTrip env n req")
    case (Inl e)
    with "1.prems" show ?thesis
      by (simp add: client_do_error)
  next
    case (Inr resp)
    show ?thesis
    proof (cases "redirect_next ireq req resp")
      case None
      with Inr "1.prems" show ?thesis
        by (simp add: client_do_final)
    next
      case (Some follow)
      show ?thesis
      proof (cases "Suc n < 10")
        case True
        then have "\<not> 10 \<le> Suc n" by simp
        from "1.IH" [OF Inr Some this] True
        have "length (fst (client_do env ireq follow (Suc n))) \<le> 10 - Suc n"
          by simp
        with True show ?thesis
          by (simp add: client_do_follow [OF Inr Some True])
      next
        case False
        with Inr Some "1.prems" show ?thesis
          by (simp add: client_do_limit)
      qed
    qed
  qed
qed

lemma client_Post_eq:
  "client_Post env CLOUDFLARE_DOH_URL ct wire =
     client_do env (post_request wire) (post_request wire) 0"
  by (simp add: client_Post_def post_request_def Let_def)

lemma client_requests_first:
  "client_requests env wire \<noteq> [] \<and> hd (client_requests env wire) = post_request wire"
  using client_do_first [of env "post_request wire" "post_request wire" 0]
  by (simp add: client_requests_def client_Post_eq)

lemma client_requests_length: "length (client_requests env wire) \<le> 10"
  using client_do_length [of 0 env "post_request wire" "post_request wire"]
  by (simp add: client_requests_def client_Post_eq)

lemma client_direct_error:
  "RoundTrip env 0 (post_request wire) = Inl e \<Longrightarrow>
   client_requests env wire = [post_request wire] \<and> client_result env wire = Inl e"
  using client_do_error [of env 0 "post_request wire" e "post_request wire"]
  by (simp add: client_requests_def client_result_def client_Post_eq)

lemma client_direct_final:
  "RoundTrip env 0 (post_request wire) = Inr resp \<Longrightarrow>
   redirect_next (post_request wire) (post_request wire) resp = None \<Longrightarrow>
   client_requests env wire = [post_request wire] \<and> client_result env wire = Inr resp"
  using client_do_final [of env 0 "post_request wire" resp "post_request wire"]
  by (simp add: client_requests_def client_result_def client_Post_eq)

lemma client_follow_first:
  assumes "RoundTrip env 0 (post_request wire) = Inr resp"
    and "redirect_next (post_request wire) (post_request wire) resp = Some follow"
  shows "take 2 (client_requests env wire) = [post_request wire, follow]"
proof -
  have "client_requests env wire =
      post_request wire # fst (client_do env (post_request wire) follow (Suc 0))"
    using client_do_follow [OF assms]
    by (simp add: client_requests_def client_Post_eq)
  moreover obtain q qs where "fst (client_do env (post_request wire) follow (Suc 0)) = q # qs"
    using client_do_first [of env "post_request wire" follow "Suc 0"]
    by (cases "fst (client_do env (post_request wire) follow (Suc 0))") auto
  moreover from this have "q = follow"
    using client_do_first [of env "post_request wire" follow "Suc 0"] by simp
  ultimately show ?thesis
    by simp
qed

lemma redirect_next_Some_iff:
  "(redirect_next ireq req resp \<noteq> None) =
     (Location resp \<noteq> None \<and> StatusCode resp \<in> {301, 302, 303, 307, 308})"
  by (auto simp add: redirect_next_def split: option.splits)

lemma redirect_next_no_Location: "Location resp = None \<Longrightarrow> redirect_next ireq req resp = None"
  by (simp add: redirect_next_def)

lemma makeHttpsRequest_world:
  "snd (makeHttpsRequest env wire w) =
     record_sent (client_requests env wire)
       (emit (EvPost CLOUDFLARE_DOH_URL ''application/dns-udpwireformat'' wire) w)"
  by (simp add: makeHttpsRequest_def client_requests_def Let_def split: sum.splits prod.splits)

lemma makeHttpsRequest_result:
  "fst (makeHttpsRequest env wire w) =
     (case client_result env wire of
        Inr resp \<Rightarrow>
          if StatusCode resp \<noteq> 200 then Inl (DohError (''HTTP error code '' @ Status resp))
          else Body resp
      | Inl err \<Rightarrow> Inl err)"
  by (simp add: makeHttpsRequest_def client_result_def Let_def newErr_def
      split: sum.splits prod.splits)

lemma makeHttpsRequest_result_indep:
  "fst (makeHttpsRequest env wire w) = fst (makeHttpsRequest env wire w')"
  by (simp add: makeHttpsRequest_result)

lemma makeHttpsRequest_direct:
  "RoundTrip env 0 (post_request wire) = Inr resp \<Longrightarrow> Location resp = None \<Longrightarrow>
   fst (makeHttpsRequest env wire w) =
     (if StatusCode resp \<noteq> 200 then Inl (DohError (''HTTP error code '' @ Status resp))
      else Body resp)"
  using client_direct_final [of env wire resp]
  by (simp add: makeHttpsRequest_result redirect_next_no_Location)

lemma makeHttpsRequest_direct_error:
  "RoundTrip env 0 (post_request wire) = Inl e \<Longrightarrow> fst (makeHttpsRequest env wire w) = Inl e"
  using client_direct_error [of env wire e]
  by (simp add: makeHttpsRequest_result)

text \<open>
  C7 (amended): the transport calls the HTTP client's \<^verbatim>\<open>Post\<close> exactly once, with the
  query bytes, the fixed content type and the fixed upstream URL, and does nothing else
  (no retry, no change to heap or cache). The first request that the client sends is a
  POST of the query bytes to that URL. It is the only request when the first exchange
  fails or is answered by a response that the client does not follow; when the answer is
  a redirect that the client follows (status 301, 302, 303, 307 or 308 with a Location),
  the next request goes to the redirect's target, and the call sends at most 10 requests. When the response that the client returns has
  a status code other than 200 the result is an error made from the status text and no
  body; with status 200 the result is the outcome of reading the body; an error of the
  client is returned as the same error value.
\<close>

theorem makeHttpsRequest_one_call:
  "new_events w (snd (makeHttpsRequest env wire w)) =
     [EvPost CLOUDFLARE_DOH_URL ''application/dns-udpwireformat'' wire] \<and>
   heap (snd (makeHttpsRequest env wire w)) = heap w \<and>
   NameCache (snd (makeHttpsRequest env wire w)) = NameCache w \<and>
   sent_requests (snd (makeHttpsRequest env wire w)) =
     sent_requests w @ client_requests env wire \<and>
   client_requests env wire \<noteq> [] \<and>
   hd (client_requests env wire) = post_request wire \<and>
   length (client_requests env wire) \<le> 10 \<and>
   (RoundTrip env 0 (post_request wire) = Inl err0 \<longrightarrow>
      client_requests env wire = [post_request wire]) \<and>
   (RoundTrip env 0 (post_request wire) = Inr resp0 \<longrightarrow>
    redirect_next (post_request wire) (post_request wire) resp0 = None \<longrightarrow>
      client_requests env wire = [post_request wire]) \<and>
   (RoundTrip env 0 (post_request wire) = Inr resp0 \<longrightarrow>
    redirect_next (post_request wire) (post_request wire) resp0 = Some follow \<longrightarrow>
      take 2 (client_requests env wire) = [post_request wire, follow]) \<and>
   (redirect_next (post_request wire) (post_request wire) resp0 \<noteq> None) =
     (Location resp0 \<noteq> None \<and> StatusCode resp0 \<in> {301, 302, 303, 307, 308}) \<and>
   (client_result env wire = Inr resp \<longrightarrow> StatusCode resp \<noteq> 200 \<longrightarrow>
      fst (makeHttpsRequest env wire w) = Inl (DohError (''HTTP error code '' @ Status resp))) \<and>
   (client_result env wire = Inr resp \<longrightarrow> StatusCode resp = 200 \<longrightarrow>
      fst (makeHttpsRequest env wire w) = Body resp) \<and>
   (client_result env wire = Inl err \<longrightarrow> fst (makeHttpsRequest env wire w) = Inl err)"
proof -
  have w: "new_events w (snd (makeHttpsRequest env wire w)) =
       [EvPost CLOUDFLARE_DOH_URL ''application/dns-udpwireformat'' wire] \<and>
     heap (snd (makeHttpsRequest env wire w)) = heap w \<and>
     NameCache (snd (makeHttpsRequest env wire w)) = NameCache w \<and>
     sent_requests (snd (makeHttpsRequest env wire w)) =
       sent_requests w @ client_requests env wire"
    by (simp add: makeHttpsRequest_world record_sent_def emit_def new_events_def)
  have r: "(client_result env wire = Inr resp \<longrightarrow> StatusCode resp \<noteq> 200 \<longrightarrow>
        fst (makeHttpsRequest env wire w) = Inl (DohError (''HTTP error code '' @ Status resp))) \<and>
     (client_result env wire = Inr resp \<longrightarrow> StatusCode resp = 200 \<longrightarrow>
        fst (makeHttpsRequest env wire w) = Body resp) \<and>
     (client_result env wire = Inl err \<longrightarrow> fst (makeHttpsRequest env wire w) = Inl err)"
    by (simp add: makeHttpsRequest_result)
  show ?thesis
    using w r client_requests_first [of env wire] client_requests_length [of env wire]
      client_direct_error [of env wire err0] client_direct_final [of env wire resp0]
      client_follow_first [of env wire resp0 follow]
      redirect_next_Some_iff [of "post_request wire" "post_request wire" resp0]
    by blast
qed

lemma env_roundtrip:
  "RoundTrip env_ok n req = Inr resp_ok"
  "RoundTrip env_503 n req = Inr resp_503"
  "RoundTrip env_neterr n req = Inl (LibError ''dial tcp: i/o timeout'')"
  "RoundTrip env_307 0 req = Inr resp_307"
  "RoundTrip env_307 (Suc n) req = Inr resp_ok"
  by (simp_all add: env_ok_def env_503_def env_neterr_def env_307_def)

lemma resp_Location:
  "Location resp_ok = None" "Location resp_503 = None"
  by (simp_all add: resp_ok_def resp_503_def)

lemma redirect_next_307:
  "redirect_next (post_request wire) (post_request wire) resp_307 =
     Some \<lparr>Method = ''POST'', URL = ''https://mirror.example/dns-query'', ReqBody = wire\<rparr>"
  by (simp add: redirect_next_def resp_307_def post_request_def)

lemma client_env_307:
  "client_requests env_307 wire =
     [post_request wire,
      \<lparr>Method = ''POST'', URL = ''https://mirror.example/dns-query'', ReqBody = wire\<rparr>] \<and>
   client_result env_307 wire = Inr resp_ok"
proof -
  let ?q = "\<lparr>Method = ''POST'', URL = ''https://mirror.example/dns-query'', ReqBody = wire\<rparr>"
  have 1: "RoundTrip env_307 0 (post_request wire) = Inr resp_307"
    by (rule env_roundtrip)
  have 2: "RoundTrip env_307 (Suc 0) ?q = Inr resp_ok"
    by (rule env_roundtrip)
  have 3: "redirect_next (post_request wire) ?q resp_ok = None"
    by (simp add: redirect_next_no_Location resp_Location)
  show ?thesis
    using client_do_follow [OF 1 redirect_next_307] client_do_final [OF 2 3]
    by (simp add: client_requests_def client_result_def client_Post_eq)
qed

theorem makeHttpsRequest_one_call_witness:
  "fst (makeHttpsRequest env_503 [1, 2, 3] w0) =
     Inl (DohError ''HTTP error code 503 Service Unavailable'') \<and>
   sent_requests (snd (makeHttpsRequest env_503 [1, 2, 3] w0)) = [post_request [1, 2, 3]] \<and>
   fst (makeHttpsRequest env_ok [1, 2, 3] w0) = Inr [4, 5, 6] \<and>
   fst (makeHttpsRequest env_neterr [1, 2, 3] w0) = Inl (LibError ''dial tcp: i/o timeout'') \<and>
   new_events w0 (snd (makeHttpsRequest env_307 [1, 2, 3] w0)) =
     [EvPost ''https://cloudflare-dns.com/dns-query'' ''application/dns-udpwireformat'' [1, 2, 3]] \<and>
   take 2 (client_requests env_307 [1, 2, 3]) =
     [post_request [1, 2, 3],
      \<lparr>Method = ''POST'', URL = ''https://mirror.example/dns-query'', ReqBody = [1, 2, 3]\<rparr>]"
proof -
  have r: "client_result env_503 [1, 2, 3] = Inr resp_503"
    "client_result env_ok [1, 2, 3] = Inr resp_ok"
    "client_result env_neterr [1, 2, 3] = Inl (LibError ''dial tcp: i/o timeout'')"
    using client_direct_final [OF env_roundtrip(2) redirect_next_no_Location [OF resp_Location(2)]]
      client_direct_final [OF env_roundtrip(1) redirect_next_no_Location [OF resp_Location(1)]]
      client_direct_error [OF env_roundtrip(3)]
    by simp_all
  have n: "redirect_next (post_request [1, 2, 3]) (post_request [1, 2, 3]) resp_503 = None"
    by (simp add: redirect_next_no_Location resp_Location)
  have s: "StatusCode resp_503 \<noteq> 200" "Status resp_503 = ''503 Service Unavailable''"
    "StatusCode resp_ok = 200" "Body resp_ok = Inr [4, 5, 6]" "sent_requests w0 = []"
    by (simp_all add: resp_503_def resp_ok_def w0_def)
  show ?thesis
    using makeHttpsRequest_one_call [of w0 env_503 "[1, 2, 3]" _ resp_503 _ resp_503]
      makeHttpsRequest_one_call [of w0 env_ok "[1, 2, 3]" _ _ _ resp_ok]
      makeHttpsRequest_one_call [of w0 env_neterr "[1, 2, 3]" _ _ _ _
        "LibError ''dial tcp: i/o timeout''"]
      makeHttpsRequest_one_call [of w0 env_307 "[1, 2, 3]" _ resp_307
        "\<lparr>Method = ''POST'', URL = ''https://mirror.example/dns-query'', ReqBody = [1, 2, 3]\<rparr>"]
      r n s env_roundtrip redirect_next_307 [of "[1, 2, 3]"]
    by (simp add: CLOUDFLARE_DOH_URL_def)
qed

text \<open>
  C7 as stated fails: when the upstream answers the POST with a 307 redirect, the client
  sends a second POST of the query bytes to the redirect's target, so two POSTs are sent
  and one of them not to the fixed URL; the exchange that was answered with status 307
  does not make the transport return an error, which returns the body of the second
  response.
\<close>

theorem redirect_followed_counterexample:
  "RoundTrip env_307 0 (post_request [1, 2, 3]) = Inr resp_307 \<and>
   StatusCode resp_307 = 307 \<and>
   fst (makeHttpsRequest env_307 [1, 2, 3] w0) = Inr [4, 5, 6] \<and>
   sent_requests (snd (makeHttpsRequest env_307 [1, 2, 3] w0)) =
     [\<lparr>Method = ''POST'', URL = ''https://cloudflare-dns.com/dns-query'', ReqBody = [1, 2, 3]\<rparr>,
      \<lparr>Method = ''POST'', URL = ''https://mirror.example/dns-query'', ReqBody = [1, 2, 3]\<rparr>]"
  using client_env_307 [of "[1, 2, 3]"]
  by (simp add: env_roundtrip makeHttpsRequest_result makeHttpsRequest_world record_sent_def
      emit_def resp_307_def resp_ok_def w0_def post_request_def CLOUDFLARE_DOH_URL_def)

lemma env_Pack:
  "Pack env_ok r = Inr [1, 2, 3]" "Pack env_503 r = Inr [1, 2, 3]"
  "Pack env_neterr r = Inr [1, 2, 3]" "Pack env_unpackerr r = Inr [1, 2, 3]"
  "Pack env_nxdomain r = Inr [1, 2, 3]" "Pack env_packerr r = Inl (LibError ''dns: bad rdata'')"
  by (simp_all add: env_ok_def env_503_def env_neterr_def env_unpackerr_def env_nxdomain_def
      env_packerr_def)

lemma env_transport:
  "fst (makeHttpsRequest env_ok [1, 2, 3] w) = Inr [4, 5, 6]"
  "fst (makeHttpsRequest env_unpackerr [1, 2, 3] w) = Inr [4, 5, 6]"
  "fst (makeHttpsRequest env_nxdomain [1, 2, 3] w) = Inr [4, 5, 6]"
  "fst (makeHttpsRequest env_503 [1, 2, 3] w) =
     Inl (DohError ''HTTP error code 503 Service Unavailable'')"
  "fst (makeHttpsRequest env_neterr [1, 2, 3] w) = Inl (LibError ''dial tcp: i/o timeout'')"
proof -
  have rt: "RoundTrip env_unpackerr 0 (post_request [1, 2, 3]) = Inr resp_ok"
    "RoundTrip env_nxdomain 0 (post_request [1, 2, 3]) = Inr resp_ok"
    by (simp_all add: env_unpackerr_def env_nxdomain_def env_ok_def)
  show "fst (makeHttpsRequest env_ok [1, 2, 3] w) = Inr [4, 5, 6]"
    using makeHttpsRequest_direct [OF env_roundtrip(1) resp_Location(1), where wire = "[1, 2, 3]" and w = w]
    by (simp add: resp_ok_def)
  show "fst (makeHttpsRequest env_unpackerr [1, 2, 3] w) = Inr [4, 5, 6]"
    using makeHttpsRequest_direct [OF rt(1) resp_Location(1), where w = w]
    by (simp add: resp_ok_def)
  show "fst (makeHttpsRequest env_nxdomain [1, 2, 3] w) = Inr [4, 5, 6]"
    using makeHttpsRequest_direct [OF rt(2) resp_Location(1), where w = w]
    by (simp add: resp_ok_def)
  show "fst (makeHttpsRequest env_503 [1, 2, 3] w) =
      Inl (DohError ''HTTP error code 503 Service Unavailable'')"
    using makeHttpsRequest_direct [OF env_roundtrip(2) resp_Location(2), where wire = "[1, 2, 3]" and w = w]
    by (simp add: resp_503_def)
  show "fst (makeHttpsRequest env_neterr [1, 2, 3] w) =
      Inl (LibError ''dial tcp: i/o timeout'')"
    by (rule makeHttpsRequest_direct_error) (rule env_roundtrip)
qed

lemma QueryOverHTTPS_pack_fail:
  "Pack env r = Inl e \<Longrightarrow>
   QueryOverHTTPS env r w =
     (Inl (DohError ''Can't pack message from wireformat.''), emit (EvPack r) w)"
  by (simp add: QueryOverHTTPS_def Let_def newErr_def)

lemma QueryOverHTTPS_transport_fail:
  "Pack env r = Inr wire \<Longrightarrow> fst (makeHttpsRequest env wire w') = Inl e \<Longrightarrow>
   QueryOverHTTPS env r w =
     (Inl (DohError ''HTTPS Request failed.''),
      record_sent (client_requests env wire)
        (emit (EvPost CLOUDFLARE_DOH_URL ''application/dns-udpwireformat'' wire)
           (emit (EvPack r) w)))"
  using makeHttpsRequest_result_indep [of env wire w' "emit (EvPack r) w"]
    makeHttpsRequest_world [of env wire "emit (EvPack r) w"]
  by (cases "makeHttpsRequest env wire (emit (EvPack r) w)")
     (simp add: QueryOverHTTPS_def Let_def newErr_def)

lemma QueryOverHTTPS_unpack_fail:
  "Pack env r = Inr wire \<Longrightarrow> fst (makeHttpsRequest env wire w') = Inr resp \<Longrightarrow>
   Unpack env resp = Inl e \<Longrightarrow>
   QueryOverHTTPS env r w =
     (Inl (DohError ''Can't unpack message from wireformat.''),
      emit (EvUnpack resp)
        (record_sent (client_requests env wire)
           (emit (EvPost CLOUDFLARE_DOH_URL ''application/dns-udpwireformat'' wire)
              (emit (EvPack r) w))))"
  using makeHttpsRequest_result_indep [of env wire w' "emit (EvPack r) w"]
    makeHttpsRequest_world [of env wire "emit (EvPack r) w"]
  by (cases "makeHttpsRequest env wire (emit (EvPack r) w)")
     (simp add: QueryOverHTTPS_def Let_def newErr_def)

lemma QueryOverHTTPS_ok:
  "Pack env r = Inr wire \<Longrightarrow> fst (makeHttpsRequest env wire w') = Inr resp \<Longrightarrow>
   Unpack env resp = Inr m \<Longrightarrow>
   QueryOverHTTPS env r w =
     (Inr (nxt w),
      w\<lparr>heap := (heap w)(nxt w := m), nxt := Suc (nxt w),
        trace := trace w @ [EvPack r,
          EvPost CLOUDFLARE_DOH_URL ''application/dns-udpwireformat'' wire, EvUnpack resp],
        sent_requests := sent_requests w @ client_requests env wire\<rparr>)"
  using makeHttpsRequest_result_indep [of env wire w' "emit (EvPack r) w"]
    makeHttpsRequest_world [of env wire "emit (EvPack r) w"]
  by (cases "makeHttpsRequest env wire (emit (EvPack r) w)")
     (simp add: QueryOverHTTPS_def Let_def emit_def record_sent_def)

text \<open>
  C6: \<^verbatim>\<open>QueryOverHTTPS\<close> is pack, then the transport, then unpack. A pack failure
  returns the pack error with no transport call; a transport failure returns the
  transport error with no unpack call; an unpack failure returns the unpack error; when
  all three succeed the decoded reply is returned in a freshly allocated message. The
  events added to the trace are exactly the stages that ran.
\<close>

theorem QueryOverHTTPS_first_error:
  "(Pack env r = Inl e1 \<longrightarrow>
      fst (QueryOverHTTPS env r w) = Inl (DohError ''Can't pack message from wireformat.'') \<and>
      new_events w (snd (QueryOverHTTPS env r w)) = [EvPack r]) \<and>
   (Pack env r = Inr wire \<longrightarrow> fst (makeHttpsRequest env wire w) = Inl e2 \<longrightarrow>
      fst (QueryOverHTTPS env r w) = Inl (DohError ''HTTPS Request failed.'') \<and>
      new_events w (snd (QueryOverHTTPS env r w)) =
        [EvPack r, EvPost CLOUDFLARE_DOH_URL ''application/dns-udpwireformat'' wire]) \<and>
   (Pack env r = Inr wire \<longrightarrow> fst (makeHttpsRequest env wire w) = Inr resp \<longrightarrow>
    Unpack env resp = Inl e3 \<longrightarrow>
      fst (QueryOverHTTPS env r w) = Inl (DohError ''Can't unpack message from wireformat.'') \<and>
      new_events w (snd (QueryOverHTTPS env r w)) =
        [EvPack r, EvPost CLOUDFLARE_DOH_URL ''application/dns-udpwireformat'' wire,
         EvUnpack resp]) \<and>
   (Pack env r = Inr wire \<longrightarrow> fst (makeHttpsRequest env wire w) = Inr resp \<longrightarrow>
    Unpack env resp = Inr m \<longrightarrow>
      fst (QueryOverHTTPS env r w) = Inr (nxt w) \<and>
      heap (snd (QueryOverHTTPS env r w)) (nxt w) = m \<and>
      new_events w (snd (QueryOverHTTPS env r w)) =
        [EvPack r, EvPost CLOUDFLARE_DOH_URL ''application/dns-udpwireformat'' wire,
         EvUnpack resp])"
  by (simp add: QueryOverHTTPS_pack_fail QueryOverHTTPS_transport_fail [where w' = w]
      QueryOverHTTPS_unpack_fail [where w' = w] QueryOverHTTPS_ok [where w' = w]
      new_events_def emit_def record_sent_def)

theorem QueryOverHTTPS_first_error_witness:
  "fst (QueryOverHTTPS env_packerr q_example w0) =
     Inl (DohError ''Can't pack message from wireformat.'') \<and>
   new_events w0 (snd (QueryOverHTTPS env_packerr q_example w0)) = [EvPack q_example] \<and>
   fst (QueryOverHTTPS env_503 q_example w0) = Inl (DohError ''HTTPS Request failed.'') \<and>
   new_events w0 (snd (QueryOverHTTPS env_503 q_example w0)) =
     [EvPack q_example, EvPost CLOUDFLARE_DOH_URL ''application/dns-udpwireformat'' [1, 2, 3]] \<and>
   fst (QueryOverHTTPS env_unpackerr q_example w0) =
     Inl (DohError ''Can't unpack message from wireformat.'') \<and>
   fst (QueryOverHTTPS env_ok q_example w0) = Inr 0 \<and>
   heap (snd (QueryOverHTTPS env_ok q_example w0)) 0 = reply_example"
proof -
  have p1: "Pack env_packerr q_example = Inl (LibError ''dns: bad rdata'')"
    by (rule env_Pack)
  have p2: "Pack env_503 q_example = Inr [1, 2, 3]"
    "fst (makeHttpsRequest env_503 [1, 2, 3] w0) =
       Inl (DohError ''HTTP error code 503 Service Unavailable'')"
    by (simp_all add: env_Pack env_transport)
  have p3: "Pack env_unpackerr q_example = Inr [1, 2, 3]"
    "fst (makeHttpsRequest env_unpackerr [1, 2, 3] w0) = Inr [4, 5, 6]"
    "Unpack env_unpackerr [4, 5, 6] = Inl (LibError ''dns: overflow unpacking'')"
    by (rule env_Pack, rule env_transport, simp add: env_unpackerr_def)
  have p4: "Pack env_ok q_example = Inr [1, 2, 3]"
    "fst (makeHttpsRequest env_ok [1, 2, 3] w0) = Inr [4, 5, 6]"
    "Unpack env_ok [4, 5, 6] = Inr reply_example"
    by (rule env_Pack, rule env_transport, simp add: env_ok_def)
  have n: "nxt w0 = 0"
    by (simp add: w0_def)
  show ?thesis
    using QueryOverHTTPS_first_error [of env_packerr q_example "LibError ''dns: bad rdata''" w0]
      QueryOverHTTPS_first_error [of env_503 q_example _ w0 "[1, 2, 3]"
        "DohError ''HTTP error code 503 Service Unavailable''"]
      QueryOverHTTPS_first_error [of env_unpackerr q_example _ w0 "[1, 2, 3]" _ "[4, 5, 6]"
        "LibError ''dns: overflow unpacking''"]
      QueryOverHTTPS_first_error [of env_ok q_example _ w0 "[1, 2, 3]" _ "[4, 5, 6]" _
        reply_example]
      p1 p2 p3 p4 n
    by simp
qed

section \<open>The handler, case by case\<close>

lemma QueryOverHTTPS_cases:
  obtains (fail) err es ws where
      "QueryOverHTTPS env r w =
         (Inl err, w\<lparr>trace := trace w @ EvPack r # es,
                        sent_requests := sent_requests w @ ws\<rparr>)"
      "\<forall>e \<in> set es. is_transport_event e"
    | (ok) m es ws where
      "QueryOverHTTPS env r w =
         (Inr (nxt w), w\<lparr>heap := (heap w)(nxt w := m), nxt := Suc (nxt w),
                          trace := trace w @ EvPack r # es,
                          sent_requests := sent_requests w @ ws\<rparr>)"
      "\<forall>e \<in> set es. is_transport_event e"
proof (cases "Pack env r")
  case (Inl e)
  then have "QueryOverHTTPS env r w =
      (Inl (DohError ''Can't pack message from wireformat.''),
       w\<lparr>trace := trace w @ EvPack r # [], sent_requests := sent_requests w @ []\<rparr>)"
    by (simp add: QueryOverHTTPS_pack_fail emit_def)
  then show ?thesis
    by (rule fail) simp
next
  case (Inr wire)
  show ?thesis
  proof (cases "fst (makeHttpsRequest env wire w)")
    case (Inl e)
    with Inr have "QueryOverHTTPS env r w =
        (Inl (DohError ''HTTPS Request failed.''),
         w\<lparr>trace := trace w @ EvPack r #
            [EvPost CLOUDFLARE_DOH_URL ''application/dns-udpwireformat'' wire],
           sent_requests := sent_requests w @ client_requests env wire\<rparr>)"
      by (simp add: QueryOverHTTPS_transport_fail [where w' = w] emit_def record_sent_def)
    then show ?thesis
      by (rule fail) simp
  next
    case resp: (Inr resp)
    show ?thesis
    proof (cases "Unpack env resp")
      case (Inl e)
      with Inr resp have "QueryOverHTTPS env r w =
          (Inl (DohError ''Can't unpack message from wireformat.''),
           w\<lparr>trace := trace w @ EvPack r #
              [EvPost CLOUDFLARE_DOH_URL ''application/dns-udpwireformat'' wire,
               EvUnpack resp],
             sent_requests := sent_requests w @ client_requests env wire\<rparr>)"
        by (simp add: QueryOverHTTPS_unpack_fail [where w' = w] emit_def record_sent_def)
      then show ?thesis
        by (rule fail) simp
    next
      case m: (Inr m)
      with Inr resp have "QueryOverHTTPS env r w =
          (Inr (nxt w), w\<lparr>heap := (heap w)(nxt w := m), nxt := Suc (nxt w),
             trace := trace w @ EvPack r #
              [EvPost CLOUDFLARE_DOH_URL ''application/dns-udpwireformat'' wire,
               EvUnpack resp],
             sent_requests := sent_requests w @ client_requests env wire\<rparr>)"
        by (simp add: QueryOverHTTPS_ok [where w' = w])
      then show ?thesis
        by (rule ok) simp
    qed
  qed
qed

lemma ServeDNS_host:
  "first_question_A_for_host r \<Longrightarrow>
   ServeDNS env s r w =
     w\<lparr>heap := (heap w)(Host s := SetReply (heap w (Host s)) r),
       trace := trace w @ [EvWriteMsg (SetReply (heap w (Host s)) r)]\<rparr>"
  by (simp add: first_question_A_for_host_def is_A_query_def ServeDNS_def SetReply_at_def
      WriteMsg_def emit_def)

lemma ServeDNS_hit:
  "is_A_query r \<Longrightarrow> Name (Question r ! 0) \<noteq> CLOUDFLARE_DOH_HOST \<Longrightarrow>
   NameCache w (Name (Question r ! 0)) = Some (a, expiration) \<Longrightarrow>
   \<not> expired (nowGet env) expiration \<Longrightarrow>
   ServeDNS env s r w =
     w\<lparr>heap := (heap w)(a := SetReply (heap w a) r),
       trace := trace w @ [EvCacheGet (Name (Question r ! 0)),
                           EvWriteMsg (SetReply (heap w a) r)]\<rparr>"
  by (simp add: is_A_query_def ServeDNS_def cache_Get_def SetReply_at_def
      WriteMsg_def emit_def Let_def)

lemma cache_Get_world: "snd (cache_Get env k w) = emit (EvCacheGet k) w"
  by (simp add: cache_Get_def Let_def split: option.splits prod.splits)

lemma ServeDNS_miss:
  "is_A_query r \<Longrightarrow> Name (Question r ! 0) \<noteq> CLOUDFLARE_DOH_HOST \<Longrightarrow>
   fst (cache_Get env (Name (Question r ! 0)) w) = None \<Longrightarrow>
   ServeDNS env s r w =
     (case QueryOverHTTPS env r (emit (EvCacheGet (Name (Question r ! 0))) w) of
        (Inr respMsg, w2) \<Rightarrow>
          WriteMsg respMsg
            (SetReply_at respMsg r (cache_SetDefault env (Name (Question r ! 0)) respMsg w2))
      | (Inl err, w2) \<Rightarrow>
          HandleFailed r
            (emit (EvWriteErrorLog err)
               (emit (EvLogPrintf (''requested name = '' @ Name (Question r ! 0))) w2)))"
  using cache_Get_world [of env "Name (Question r ! 0)" w]
  by (cases "cache_Get env (Name (Question r ! 0)) w")
     (simp add: is_A_query_def ServeDNS_def Let_def)

lemma ServeDNS_relay:
  "\<not> is_A_query r \<Longrightarrow>
   ServeDNS env s r w =
     (case QueryOverHTTPS env r w of
        (Inr respMsg, w1) \<Rightarrow> WriteMsg respMsg (SetReply_at respMsg r w1)
      | (Inl err, w1) \<Rightarrow> HandleFailed r w1)"
  by (auto simp add: is_A_query_def ServeDNS_def)

lemma ServeDNS_cases:
  obtains
    (host) "first_question_A_for_host r"
      "ServeDNS env s r w =
         w\<lparr>heap := (heap w)(Host s := SetReply (heap w (Host s)) r),
           trace := trace w @ [EvWriteMsg (SetReply (heap w (Host s)) r)]\<rparr>"
  | (hit) a expiration where "is_A_query r" "Name (Question r ! 0) \<noteq> CLOUDFLARE_DOH_HOST"
      "NameCache w (Name (Question r ! 0)) = Some (a, expiration)"
      "\<not> expired (nowGet env) expiration"
      "ServeDNS env s r w =
         w\<lparr>heap := (heap w)(a := SetReply (heap w a) r),
           trace := trace w @ [EvCacheGet (Name (Question r ! 0)),
                               EvWriteMsg (SetReply (heap w a) r)]\<rparr>"
  | (miss_ok) m es ws where "is_A_query r" "Name (Question r ! 0) \<noteq> CLOUDFLARE_DOH_HOST"
      "fst (cache_Get env (Name (Question r ! 0)) w) = None"
      "\<forall>e \<in> set es. is_transport_event e"
      "ServeDNS env s r w =
         w\<lparr>heap := (heap w)(nxt w := SetReply m r), nxt := Suc (nxt w),
           NameCache := (NameCache w)(Name (Question r ! 0) \<mapsto>
                          (nxt w, nowSet env + defaultExpiration)),
           trace := trace w @ EvCacheGet (Name (Question r ! 0)) # EvPack r # es @
                      [EvCacheSet (Name (Question r ! 0)) (nxt w),
                       EvWriteMsg (SetReply m r)],
           sent_requests := sent_requests w @ ws\<rparr>"
  | (miss_fail) err es ws where "is_A_query r" "Name (Question r ! 0) \<noteq> CLOUDFLARE_DOH_HOST"
      "fst (cache_Get env (Name (Question r ! 0)) w) = None"
      "\<forall>e \<in> set es. is_transport_event e"
      "ServeDNS env s r w =
         w\<lparr>trace := trace w @ EvCacheGet (Name (Question r ! 0)) # EvPack r # es @
                      [EvLogPrintf (''requested name = '' @ Name (Question r ! 0)),
                       EvWriteErrorLog err,
                       EvWriteMsg (SetRcode new_Msg r RcodeServerFailure)],
           sent_requests := sent_requests w @ ws\<rparr>"
  | (relay_ok) m es ws where "\<not> is_A_query r"
      "\<forall>e \<in> set es. is_transport_event e"
      "ServeDNS env s r w =
         w\<lparr>heap := (heap w)(nxt w := SetReply m r), nxt := Suc (nxt w),
           trace := trace w @ EvPack r # es @ [EvWriteMsg (SetReply m r)],
           sent_requests := sent_requests w @ ws\<rparr>"
  | (relay_fail) es ws where "\<not> is_A_query r"
      "\<forall>e \<in> set es. is_transport_event e"
      "ServeDNS env s r w =
         w\<lparr>trace := trace w @ EvPack r # es @
                      [EvWriteMsg (SetRcode new_Msg r RcodeServerFailure)],
           sent_requests := sent_requests w @ ws\<rparr>"
proof (cases "is_A_query r")
  case False
  show ?thesis
  proof (cases rule: QueryOverHTTPS_cases [of env r w])
    case (fail err es ws)
    with False have "ServeDNS env s r w =
         w\<lparr>trace := trace w @ EvPack r # es @
                      [EvWriteMsg (SetRcode new_Msg r RcodeServerFailure)],
           sent_requests := sent_requests w @ ws\<rparr>"
      by (simp add: ServeDNS_relay HandleFailed_def emit_def)
    with False fail(2) show ?thesis
      by (rule relay_fail)
  next
    case (ok m es ws)
    with False have "ServeDNS env s r w =
         w\<lparr>heap := (heap w)(nxt w := SetReply m r), nxt := Suc (nxt w),
           trace := trace w @ EvPack r # es @ [EvWriteMsg (SetReply m r)],
           sent_requests := sent_requests w @ ws\<rparr>"
      by (simp add: ServeDNS_relay WriteMsg_def SetReply_at_def emit_def)
    with False ok(2) show ?thesis
      by (rule relay_ok)
  qed
next
  case A: True
  show ?thesis
  proof (cases "Name (Question r ! 0) = CLOUDFLARE_DOH_HOST")
    case True
    with A have h: "first_question_A_for_host r"
      by (simp add: first_question_A_for_host_def)
    from h ServeDNS_host [OF h] show ?thesis
      by (rule host)
  next
    case other: False
    show ?thesis
    proof (cases "fst (cache_Get env (Name (Question r ! 0)) w)")
      case (Some a)
      then obtain expiration where
        c: "NameCache w (Name (Question r ! 0)) = Some (a, expiration)"
          "\<not> expired (nowGet env) expiration"
        by (auto simp add: cache_Get_def Let_def split: option.splits if_splits)
      from A other c ServeDNS_hit [OF A other c] show ?thesis
        by (rule hit)
    next
      case None
      let ?k = "Name (Question r ! 0)"
      let ?w1 = "emit (EvCacheGet ?k) w"
      show ?thesis
      proof (cases rule: QueryOverHTTPS_cases [of env r ?w1])
        case (fail err es ws)
        with A other None have "ServeDNS env s r w =
           w\<lparr>trace := trace w @ EvCacheGet ?k # EvPack r # es @
                      [EvLogPrintf (''requested name = '' @ ?k),
                       EvWriteErrorLog err,
                       EvWriteMsg (SetRcode new_Msg r RcodeServerFailure)],
           sent_requests := sent_requests w @ ws\<rparr>"
          by (simp add: ServeDNS_miss HandleFailed_def emit_def)
        with A other None fail(2) show ?thesis
          by (rule miss_fail)
      next
        case (ok m es ws)
        with A other None have "ServeDNS env s r w =
           w\<lparr>heap := (heap w)(nxt w := SetReply m r), nxt := Suc (nxt w),
             NameCache := (NameCache w)(?k \<mapsto> (nxt w, nowSet env + defaultExpiration)),
             trace := trace w @ EvCacheGet ?k # EvPack r # es @
                      [EvCacheSet ?k (nxt w), EvWriteMsg (SetReply m r)],
           sent_requests := sent_requests w @ ws\<rparr>"
          by (simp add: ServeDNS_miss WriteMsg_def SetReply_at_def cache_SetDefault_def
              emit_def)
        with A other None ok(2) show ?thesis
          by (rule miss_ok)
      qed
    qed
  qed
qed

section \<open>Properties of the handler\<close>

lemma SetReply_header:
  "Id_hdr (SetReply d r) = Id_hdr r \<and> Response (SetReply d r) \<and>
   Opcode (SetReply d r) = Opcode r \<and> Rcode (SetReply d r) = RcodeSuccess"
  by (simp add: SetReply_def Let_def)

lemma SetReply_Question:
  "Question (SetReply d r) = (if Question r = [] then Question d else [Question r ! 0])"
  by (simp add: SetReply_def Let_def)

lemma SetReply_same_records: "same_records d (SetReply d r)"
  by (simp add: SetReply_def Let_def same_records_def)

lemma is_A_query_Question: "is_A_query r \<Longrightarrow> Question r \<noteq> []"
  by (simp add: is_A_query_def)

lemma filter_transport_events:
  "\<forall>e \<in> set es. is_transport_event e \<Longrightarrow>
   filter is_WriteMsg es = [] \<and> filter is_cache_event es = [] \<and>
   filter is_error_log es = [] \<and> filter is_Pack es = [] \<and> cache_set_keys es = []"
proof (induction es)
  case Nil
  show ?case by simp
next
  case (Cons e es)
  then show ?case by (cases e) simp_all
qed

lemma cache_set_keys_append:
  "cache_set_keys (xs @ ys) = cache_set_keys xs @ cache_set_keys ys"
  by (induction xs rule: cache_set_keys.induct) simp_all

text \<open>
  C1 (amended): the self-host shortcut is taken exactly when the query has at least one
  question and its first question is of type A for the name \<open>cloudflare-dns.com.\<close>;
  further questions are not looked at. In that case the host record is made a reply to
  the query in place and written: the trace gains that one write and nothing else (no
  cache read, no cache write, no pack and no POST), and the cache is as before.
\<close>

theorem ServeDNS_self_host_shortcut:
  "(self_host_shortcut env s r w \<longleftrightarrow> first_question_A_for_host r) \<and>
   (first_question_A_for_host r \<longrightarrow>
      ServeDNS env s r w =
        w\<lparr>heap := (heap w)(Host s := SetReply (heap w (Host s)) r),
          trace := trace w @ [EvWriteMsg (SetReply (heap w (Host s)) r)]\<rparr> \<and>
      NameCache (ServeDNS env s r w) = NameCache w \<and>
      filter is_cache_event (new_events w (ServeDNS env s r w)) = [] \<and>
      filter is_Pack (new_events w (ServeDNS env s r w)) = [] \<and>
      filter is_Post (new_events w (ServeDNS env s r w)) = [])"
proof -
  have not_host: "\<not> self_host_shortcut env s r w" if "\<not> first_question_A_for_host r"
  proof (cases rule: ServeDNS_cases [where r = r and env = env and s = s and w = w])
    case host
    with that show ?thesis by simp
  next
    case (hit a expiration)
    then show ?thesis by (simp add: self_host_shortcut_def new_events_def)
  next
    case (miss_ok m es ws)
    then show ?thesis by (simp add: self_host_shortcut_def new_events_def)
  next
    case (miss_fail err es ws)
    then show ?thesis by (simp add: self_host_shortcut_def new_events_def)
  next
    case (relay_ok m es ws)
    then show ?thesis by (simp add: self_host_shortcut_def new_events_def)
  next
    case (relay_fail es ws)
    then show ?thesis by (simp add: self_host_shortcut_def new_events_def)
  qed
  have is_host: "self_host_shortcut env s r w" if "first_question_A_for_host r"
    using ServeDNS_host [OF that, of env s w]
    by (simp add: self_host_shortcut_def new_events_def)
  show ?thesis
    using not_host is_host
    by (auto simp add: ServeDNS_host new_events_def)
qed

theorem ServeDNS_self_host_shortcut_witness:
  "self_host_shortcut env_neterr s0 q_host w_host \<and>
   \<not> self_host_shortcut env_neterr s0 q_example w_host \<and>
   new_events w_host (ServeDNS env_neterr s0 q_host w_host) =
     [EvWriteMsg (host_reply\<lparr>Id_hdr := 48879\<rparr>)]"
proof -
  have h: "first_question_A_for_host q_host"
    by (simp add: first_question_A_for_host_def is_A_query_def q_host_def
        CLOUDFLARE_DOH_HOST_def TypeA_def new_Msg_def)
  have n: "\<not> first_question_A_for_host q_example"
    by (simp add: first_question_A_for_host_def is_A_query_def q_example_def
        CLOUDFLARE_DOH_HOST_def TypeA_def new_Msg_def)
  have v: "SetReply (heap w_host (Host s0)) q_host = host_reply\<lparr>Id_hdr := 48879\<rparr>"
    by (simp add: SetReply_def w_host_def s0_def q_host_def host_reply_def new_Msg_def
        OpcodeQuery_def RcodeSuccess_def)
  show ?thesis
    using ServeDNS_self_host_shortcut [of env_neterr s0 q_host w_host]
      ServeDNS_self_host_shortcut [of env_neterr s0 q_example w_host] h n v
    by (simp add: new_events_def)
qed

text \<open>
  C1 as stated fails: a query with two questions, the first of which is the A-type
  question for the upstream hostname, takes the shortcut although it is not a
  single-question query.
\<close>

theorem single_question_counterexample:
  "\<not> (self_host_shortcut env_neterr s0 q_two w_host \<longleftrightarrow> single_A_question_for_host q_two)"
proof -
  have h: "first_question_A_for_host q_two"
    by (simp add: first_question_A_for_host_def is_A_query_def q_two_def
        CLOUDFLARE_DOH_HOST_def TypeA_def new_Msg_def)
  have "self_host_shortcut env_neterr s0 q_two w_host"
    using ServeDNS_host [OF h, of env_neterr s0 w_host]
    by (simp add: self_host_shortcut_def new_events_def)
  moreover have "\<not> single_A_question_for_host q_two"
    by (simp add: single_A_question_for_host_def q_two_def new_Msg_def)
  ultimately show ?thesis by simp
qed

text \<open>
  C5: an A-type query for a name other than the upstream hostname, whose name the cache
  holds (stored and not expired), is answered with the cached message made a reply to
  the query: transaction ID, opcode and question are the query's, the response flag is
  set, and the answer, authority and additional sections are those of the cached
  message. The invocation reads the cache once and writes once; it makes no pack call
  and no call of the HTTP client, and no HTTP request is sent.
\<close>

theorem ServeDNS_cache_hit_reply:
  assumes "is_A_query r" and "Name (Question r ! 0) \<noteq> CLOUDFLARE_DOH_HOST"
    and "NameCache w (Name (Question r ! 0)) = Some (a, expiration)"
    and "\<not> expired (nowGet env) expiration"
  shows "new_events w (ServeDNS env s r w) =
           [EvCacheGet (Name (Question r ! 0)), EvWriteMsg (SetReply (heap w a) r)] \<and>
         Id_hdr (SetReply (heap w a) r) = Id_hdr r \<and>
         Question (SetReply (heap w a) r) = [Question r ! 0] \<and>
         Response (SetReply (heap w a) r) \<and>
         Opcode (SetReply (heap w a) r) = Opcode r \<and>
         Answer (SetReply (heap w a) r) = Answer (heap w a) \<and>
         same_records (heap w a) (SetReply (heap w a) r) \<and>
         filter is_Pack (new_events w (ServeDNS env s r w)) = [] \<and>
         filter is_Post (new_events w (ServeDNS env s r w)) = [] \<and>
         sent_requests (ServeDNS env s r w) = sent_requests w"
proof -
  have "new_events w (ServeDNS env s r w) =
          [EvCacheGet (Name (Question r ! 0)), EvWriteMsg (SetReply (heap w a) r)] \<and>
        sent_requests (ServeDNS env s r w) = sent_requests w"
    using ServeDNS_hit [OF assms, of s] by (simp add: new_events_def)
  moreover have "Question (SetReply (heap w a) r) = [Question r ! 0]"
    using assms(1) by (simp add: SetReply_Question is_A_query_Question)
  moreover have "Answer (SetReply (heap w a) r) = Answer (heap w a)"
    using SetReply_same_records [of "heap w a" r] by (simp add: same_records_def)
  ultimately show ?thesis
    by (simp add: SetReply_header SetReply_same_records)
qed

lemma q_example_A: "is_A_query q_example"
  by (simp add: is_A_query_def q_example_def new_Msg_def TypeA_def)

lemma q_example_name: "Name (Question q_example ! 0) = ''example.com.''"
  by (simp add: q_example_def new_Msg_def)

lemma q_example_not_host: "Name (Question q_example ! 0) \<noteq> CLOUDFLARE_DOH_HOST"
  by (simp add: q_example_def new_Msg_def CLOUDFLARE_DOH_HOST_def)

lemma w_cached_entry: "NameCache w_cached (Name (Question q_example ! 0)) = Some (1, 5000)"
  by (simp add: q_example_name w_cached_def)

lemma env_ok_nowGet: "\<not> expired (nowGet env_ok) 5000"
  by (simp add: env_ok_def expired_def)

lemma w_cached_heap: "heap w_cached (Suc 0) = reply_example"
  by (simp add: w_cached_def)

lemma SetReply_reply_example:
  "SetReply reply_example q_example = reply_example\<lparr>Id_hdr := 4660\<rparr>"
  by (simp add: SetReply_def reply_example_def q_example_def new_Msg_def OpcodeQuery_def
      RcodeSuccess_def)

theorem ServeDNS_cache_hit_reply_witness:
  "new_events w_cached (ServeDNS env_ok s0 q_example w_cached) =
     [EvCacheGet ''example.com.'', EvWriteMsg (reply_example\<lparr>Id_hdr := 4660\<rparr>)] \<and>
   Answer (reply_example\<lparr>Id_hdr := 4660\<rparr>) = [a_example]"
proof -
  have "new_events w_cached (ServeDNS env_ok s0 q_example w_cached) =
     [EvCacheGet ''example.com.'', EvWriteMsg (reply_example\<lparr>Id_hdr := 4660\<rparr>)]"
    using ServeDNS_cache_hit_reply [OF q_example_A q_example_not_host w_cached_entry
        env_ok_nowGet, of s0]
    by (simp add: q_example_name w_cached_heap SetReply_reply_example)
  moreover have "Answer (reply_example\<lparr>Id_hdr := 4660\<rparr>) = [a_example]"
    by (simp add: reply_example_def)
  ultimately show ?thesis by simp
qed

text \<open>
  C9: on a cache hit, \<^verbatim>\<open>SetReply\<close> is applied to the object that the cache entry points
  to. The entry keeps its pointer and expiration and no message is allocated, so after
  the hit the cache maps the name to a message whose transaction ID, opcode, question and
  response flag are those of this requester; the message written is that same object.
\<close>

theorem ServeDNS_cache_hit_in_place:
  assumes "is_A_query r" and "Name (Question r ! 0) \<noteq> CLOUDFLARE_DOH_HOST"
    and "NameCache w (Name (Question r ! 0)) = Some (a, expiration)"
    and "\<not> expired (nowGet env) expiration"
  shows "NameCache (ServeDNS env s r w) (Name (Question r ! 0)) = Some (a, expiration) \<and>
         nxt (ServeDNS env s r w) = nxt w \<and>
         heap (ServeDNS env s r w) a = SetReply (heap w a) r \<and>
         Id_hdr (heap (ServeDNS env s r w) a) = Id_hdr r \<and>
         Question (heap (ServeDNS env s r w) a) = [Question r ! 0] \<and>
         Response (heap (ServeDNS env s r w) a) \<and>
         Opcode (heap (ServeDNS env s r w) a) = Opcode r \<and>
         last (trace (ServeDNS env s r w)) = EvWriteMsg (heap (ServeDNS env s r w) a)"
proof -
  have q: "Question (SetReply (heap w a) r) = [Question r ! 0]"
    using assms(1) by (simp add: SetReply_Question is_A_query_Question)
  show ?thesis
    using ServeDNS_hit [OF assms, of s] assms(3) q
    by (simp add: SetReply_header)
qed

theorem ServeDNS_cache_hit_in_place_witness:
  "NameCache (ServeDNS env_ok s0 q_example w_cached) ''example.com.'' = Some (1, 5000) \<and>
   heap w_cached 1 = reply_example \<and>
   heap (ServeDNS env_ok s0 q_example w_cached) 1 = reply_example\<lparr>Id_hdr := 4660\<rparr> \<and>
   Id_hdr (heap (ServeDNS env_ok s0 q_example w_cached) 1) \<noteq> Id_hdr (heap w_cached 1)"
proof -
  have "NameCache (ServeDNS env_ok s0 q_example w_cached) ''example.com.'' = Some (1, 5000) \<and>
      heap (ServeDNS env_ok s0 q_example w_cached) 1 = reply_example\<lparr>Id_hdr := 4660\<rparr>"
    using ServeDNS_cache_hit_in_place [OF q_example_A q_example_not_host w_cached_entry
        env_ok_nowGet, of s0]
    by (simp add: q_example_name w_cached_heap SetReply_reply_example)
  moreover have "Id_hdr (reply_example\<lparr>Id_hdr := 4660\<rparr>) \<noteq> Id_hdr reply_example"
    by (simp add: reply_example_def new_Msg_def)
  ultimately show ?thesis
    using w_cached_heap by simp
qed

lemma ServeDNS_miss_forward_ok:
  assumes "is_A_query r" and "Name (Question r ! 0) \<noteq> CLOUDFLARE_DOH_HOST"
    and "fst (cache_Get env (Name (Question r ! 0)) w) = None"
    and "Pack env r = Inr wire" and "fst (makeHttpsRequest env wire w) = Inr resp"
    and "Unpack env resp = Inr m"
  shows "ServeDNS env s r w =
     w\<lparr>heap := (heap w)(nxt w := SetReply m r), nxt := Suc (nxt w),
       NameCache := (NameCache w)(Name (Question r ! 0) \<mapsto>
                      (nxt w, nowSet env + defaultExpiration)),
       trace := trace w @
         [EvCacheGet (Name (Question r ! 0)), EvPack r,
          EvPost CLOUDFLARE_DOH_URL ''application/dns-udpwireformat'' wire, EvUnpack resp,
          EvCacheSet (Name (Question r ! 0)) (nxt w), EvWriteMsg (SetReply m r)],
       sent_requests := sent_requests w @ client_requests env wire\<rparr>"
  using QueryOverHTTPS_ok [OF assms(4-6), of "emit (EvCacheGet (Name (Question r ! 0))) w"]
  by (simp add: ServeDNS_miss [OF assms(1-3)] WriteMsg_def SetReply_at_def
      cache_SetDefault_def emit_def)

lemma ServeDNS_relay_forward_ok:
  assumes "\<not> is_A_query r"
    and "Pack env r = Inr wire" and "fst (makeHttpsRequest env wire w) = Inr resp"
    and "Unpack env resp = Inr m"
  shows "ServeDNS env s r w =
     w\<lparr>heap := (heap w)(nxt w := SetReply m r), nxt := Suc (nxt w),
       trace := trace w @
         [EvPack r, EvPost CLOUDFLARE_DOH_URL ''application/dns-udpwireformat'' wire,
          EvUnpack resp, EvWriteMsg (SetReply m r)],
       sent_requests := sent_requests w @ client_requests env wire\<rparr>"
  using QueryOverHTTPS_ok [OF assms(2-4), of w]
  by (simp add: ServeDNS_relay [OF assms(1)] WriteMsg_def SetReply_at_def emit_def)

text \<open>
  C10: when the forward succeeds (an A-type query for another name that misses the cache,
  or a query that is relayed because it has no question or a first question of another
  type), the decoded reply is made a reply to the query by \<^verbatim>\<open>SetReply\<close> and that is
  the last thing done before it is written. \<^verbatim>\<open>SetReply\<close> stores the success response
  code, so whatever response code the upstream's reply carried, the message written has
  response code success; for an A-type query the cache entry points to that same message.
\<close>

theorem ServeDNS_forward_forces_success:
  assumes "\<not> first_question_A_for_host r"
    and "is_A_query r \<longrightarrow> fst (cache_Get env (Name (Question r ! 0)) w) = None"
    and "Pack env r = Inr wire" and "fst (makeHttpsRequest env wire w) = Inr resp"
    and "Unpack env resp = Inr m"
  shows "filter is_WriteMsg (new_events w (ServeDNS env s r w)) = [EvWriteMsg (SetReply m r)] \<and>
         last (trace (ServeDNS env s r w)) = EvWriteMsg (SetReply m r) \<and>
         Rcode (SetReply m r) = RcodeSuccess \<and>
         heap (ServeDNS env s r w) (nxt w) = SetReply m r \<and>
         (is_A_query r \<longrightarrow>
            NameCache (ServeDNS env s r w) (Name (Question r ! 0)) =
              Some (nxt w, nowSet env + defaultExpiration)) \<and>
         (\<not> is_A_query r \<longrightarrow> NameCache (ServeDNS env s r w) = NameCache w)"
proof (cases "is_A_query r")
  case True
  with assms(1) have other: "Name (Question r ! 0) \<noteq> CLOUDFLARE_DOH_HOST"
    by (simp add: first_question_A_for_host_def)
  from True assms(2) have miss: "fst (cache_Get env (Name (Question r ! 0)) w) = None"
    by simp
  show ?thesis
    using True
    by (simp add: ServeDNS_miss_forward_ok [OF True other miss assms(3-5)] new_events_def
        SetReply_header)
next
  case False
  then show ?thesis
    by (simp add: ServeDNS_relay_forward_ok [OF False assms(3-5)] new_events_def
        SetReply_header)
qed

lemma q_example_not_first_host: "\<not> first_question_A_for_host q_example"
  by (simp add: first_question_A_for_host_def q_example_not_host)

lemma q_aaaa_not_A: "\<not> is_A_query q_aaaa"
  by (simp add: is_A_query_def q_aaaa_def new_Msg_def TypeA_def)

lemma q_aaaa_not_first_host: "\<not> first_question_A_for_host q_aaaa"
  by (simp add: first_question_A_for_host_def q_aaaa_not_A)

lemma env_nxdomain_forward:
  "Pack env_nxdomain r = Inr [1, 2, 3]"
  "fst (makeHttpsRequest env_nxdomain [1, 2, 3] w) = Inr [4, 5, 6]"
  "Unpack env_nxdomain [4, 5, 6] = Inr nxdomain_reply"
  by (rule env_Pack, rule env_transport, simp add: env_nxdomain_def)

lemma w_host_miss: "fst (cache_Get env (Name (Question q_example ! 0)) w_host) = None"
  by (simp add: cache_Get_def w_host_def)

theorem ServeDNS_forward_forces_success_witness:
  "Rcode nxdomain_reply = 3 \<and>
   filter is_WriteMsg (new_events w_host (ServeDNS env_nxdomain s0 q_example w_host)) =
     [EvWriteMsg (SetReply nxdomain_reply q_example)] \<and>
   Rcode (SetReply nxdomain_reply q_example) = 0 \<and>
   NameCache (ServeDNS env_nxdomain s0 q_example w_host) ''example.com.'' =
     Some (1, 2000 + defaultExpiration) \<and>
   heap (ServeDNS env_nxdomain s0 q_example w_host) 1 = SetReply nxdomain_reply q_example \<and>
   filter is_WriteMsg (new_events w_host (ServeDNS env_nxdomain s0 q_aaaa w_host)) =
     [EvWriteMsg (SetReply nxdomain_reply q_aaaa)] \<and>
   NameCache (ServeDNS env_nxdomain s0 q_aaaa w_host) = Map.empty"
proof -
  have m: "is_A_query q_example \<longrightarrow>
      fst (cache_Get env_nxdomain (Name (Question q_example ! 0)) w_host) = None"
    by (simp add: w_host_miss)
  have m': "is_A_query q_aaaa \<longrightarrow>
      fst (cache_Get env_nxdomain (Name (Question q_aaaa ! 0)) w_host) = None"
    by (simp add: q_aaaa_not_A)
  have c: "Rcode nxdomain_reply = 3" "nxt w_host = 1" "nowSet env_nxdomain = 2000"
    "NameCache w_host = Map.empty"
    by (simp_all add: nxdomain_reply_def new_Msg_def w_host_def env_nxdomain_def env_ok_def)
  show ?thesis
    using ServeDNS_forward_forces_success [OF q_example_not_first_host m env_nxdomain_forward, of s0]
      ServeDNS_forward_forces_success [OF q_aaaa_not_first_host m' env_nxdomain_forward, of s0]
      q_example_A q_aaaa_not_A c
    by (simp add: q_example_name RcodeSuccess_def)
qed

lemma QueryOverHTTPS_fail_indep:
  assumes "fst (QueryOverHTTPS env r w) = Inl err"
  shows "\<exists>es ws. QueryOverHTTPS env r w' =
              (Inl err, w'\<lparr>trace := trace w' @ EvPack r # es,
                             sent_requests := sent_requests w' @ ws\<rparr>) \<and>
              (\<forall>e \<in> set es. is_transport_event e)"
proof (cases "Pack env r")
  case (Inl e)
  with assms show ?thesis
    by (intro exI [of _ "[]"]) (simp add: QueryOverHTTPS_pack_fail emit_def)
next
  case (Inr wire)
  show ?thesis
  proof (cases "fst (makeHttpsRequest env wire w)")
    case (Inl e)
    from assms show ?thesis
      by (intro exI [of _ "[EvPost CLOUDFLARE_DOH_URL ''application/dns-udpwireformat'' wire]"]
            exI [of _ "client_requests env wire"])
         (simp add: QueryOverHTTPS_transport_fail [OF Inr Inl] emit_def record_sent_def)
  next
    case resp: (Inr resp)
    show ?thesis
    proof (cases "Unpack env resp")
      case (Inl e)
      from assms show ?thesis
        by (intro exI [of _ "[EvPost CLOUDFLARE_DOH_URL ''application/dns-udpwireformat'' wire,
              EvUnpack resp]"] exI [of _ "client_requests env wire"])
           (simp add: QueryOverHTTPS_unpack_fail [OF Inr resp Inl] emit_def record_sent_def)
    next
      case m: (Inr m)
      from assms show ?thesis
        by (simp add: QueryOverHTTPS_ok [OF Inr resp m])
    qed
  qed
qed

lemma ServeDNS_one_write:
  "length (filter is_WriteMsg (new_events w (ServeDNS env s r w))) = 1"
  by (cases rule: ServeDNS_cases [where r = r and env = env and s = s and w = w])
     (simp_all add: new_events_def filter_transport_events)

lemma ServeDNS_forward_failure:
  assumes "\<not> first_question_A_for_host r"
    and "is_A_query r \<longrightarrow> fst (cache_Get env (Name (Question r ! 0)) w) = None"
    and "fst (QueryOverHTTPS env r w) = Inl err"
  shows "filter is_WriteMsg (new_events w (ServeDNS env s r w)) =
           [EvWriteMsg (SetRcode new_Msg r RcodeServerFailure)] \<and>
         Rcode (SetRcode new_Msg r RcodeServerFailure) = RcodeServerFailure \<and>
         NameCache (ServeDNS env s r w) = NameCache w \<and>
         heap (ServeDNS env s r w) = heap w \<and>
         filter is_error_log (new_events w (ServeDNS env s r w)) =
           (if is_A_query r then [EvWriteErrorLog err] else [])"
proof (cases "is_A_query r")
  case True
  with assms(1) have other: "Name (Question r ! 0) \<noteq> CLOUDFLARE_DOH_HOST"
    by (simp add: first_question_A_for_host_def)
  from True assms(2) have miss: "fst (cache_Get env (Name (Question r ! 0)) w) = None"
    by simp
  from QueryOverHTTPS_fail_indep [OF assms(3), of "emit (EvCacheGet (Name (Question r ! 0))) w"]
  obtain es ws where "QueryOverHTTPS env r (emit (EvCacheGet (Name (Question r ! 0))) w) =
      (Inl err, (emit (EvCacheGet (Name (Question r ! 0))) w)
         \<lparr>trace := trace (emit (EvCacheGet (Name (Question r ! 0))) w) @ EvPack r # es,
           sent_requests :=
             sent_requests (emit (EvCacheGet (Name (Question r ! 0))) w) @ ws\<rparr>)"
    and "\<forall>e \<in> set es. is_transport_event e"
    by blast
  with True show ?thesis
    by (simp add: ServeDNS_miss [OF True other miss] HandleFailed_def emit_def new_events_def
        filter_transport_events SetRcode_def)
next
  case False
  from QueryOverHTTPS_fail_indep [OF assms(3), of w]
  obtain es ws where "QueryOverHTTPS env r w =
      (Inl err, w\<lparr>trace := trace w @ EvPack r # es, sent_requests := sent_requests w @ ws\<rparr>)"
    and "\<forall>e \<in> set es. is_transport_event e"
    by blast
  with False show ?thesis
    by (simp add: ServeDNS_relay [OF False] HandleFailed_def emit_def new_events_def
        filter_transport_events SetRcode_def)
qed

lemma env_neterr_forward:
  "Pack env_neterr r = Inr [1, 2, 3]"
  "fst (makeHttpsRequest env_neterr [1, 2, 3] w) = Inl (LibError ''dial tcp: i/o timeout'')"
  by (simp_all add: env_Pack env_transport)

text \<open>
  C3, at the input where the code departs from it: an AAAA query whose forward fails with
  a transport error is answered with a server-failure reply and nothing is cached, but
  no call of the error log is made; the same failure on an A-type query is logged.
\<close>

theorem relay_failure_not_logged:
  "new_events w_host (ServeDNS env_neterr s0 q_aaaa w_host) =
     [EvPack q_aaaa,
      EvPost CLOUDFLARE_DOH_URL ''application/dns-udpwireformat'' [1, 2, 3],
      EvWriteMsg (SetRcode new_Msg q_aaaa RcodeServerFailure)] \<and>
   filter is_error_log (new_events w_host (ServeDNS env_neterr s0 q_aaaa w_host)) = [] \<and>
   new_events w_host (ServeDNS env_neterr s0 q_example w_host) =
     [EvCacheGet ''example.com.'', EvPack q_example,
      EvPost CLOUDFLARE_DOH_URL ''application/dns-udpwireformat'' [1, 2, 3],
      EvLogPrintf ''requested name = example.com.'',
      EvWriteErrorLog (DohError ''HTTPS Request failed.''),
      EvWriteMsg (SetRcode new_Msg q_example RcodeServerFailure)]"
proof -
  have a: "ServeDNS env_neterr s0 q_aaaa w_host =
      HandleFailed q_aaaa
        (record_sent (client_requests env_neterr [1, 2, 3])
           (emit (EvPost CLOUDFLARE_DOH_URL ''application/dns-udpwireformat'' [1, 2, 3])
              (emit (EvPack q_aaaa) w_host)))"
    by (simp add: ServeDNS_relay [OF q_aaaa_not_A]
        QueryOverHTTPS_transport_fail [OF env_neterr_forward])
  have b: "ServeDNS env_neterr s0 q_example w_host =
      HandleFailed q_example
        (emit (EvWriteErrorLog (DohError ''HTTPS Request failed.''))
           (emit (EvLogPrintf (''requested name = '' @ ''example.com.''))
              (record_sent (client_requests env_neterr [1, 2, 3])
                 (emit (EvPost CLOUDFLARE_DOH_URL ''application/dns-udpwireformat'' [1, 2, 3])
                    (emit (EvPack q_example) (emit (EvCacheGet ''example.com.'') w_host))))))"
    using ServeDNS_miss [OF q_example_A q_example_not_host w_host_miss, of env_neterr s0]
    by (simp add: q_example_name QueryOverHTTPS_transport_fail [OF env_neterr_forward])
  show ?thesis
    by (simp add: a b HandleFailed_def emit_def record_sent_def new_events_def)
qed

section \<open>Sequences of queries\<close>

lemma ServeDNS_trace_prefix: "\<exists>es. trace (ServeDNS env s r w) = trace w @ es"
  by (cases rule: ServeDNS_cases [where r = r and env = env and s = s and w = w]) simp_all

lemma run_trace_prefix: "\<exists>es. trace (run s ops w) = trace w @ es"
proof (induction ops arbitrary: w)
  case Nil
  show ?case by simp
next
  case (Cons op ops)
  obtain env r where op: "op = (env, r)"
    by (cases op)
  from ServeDNS_trace_prefix obtain es1 where "trace (ServeDNS env s r w) = trace w @ es1"
    by blast
  moreover from Cons.IH obtain es2 where
    "trace (run s ops (ServeDNS env s r w)) = trace (ServeDNS env s r w) @ es2"
    by blast
  ultimately show ?case
    by (simp add: op)
qed

lemma new_events_run_Cons:
  "new_events w (run s ((env, r) # ops) w) =
     new_events w (ServeDNS env s r w) @
     new_events (ServeDNS env s r w) (run s ops (ServeDNS env s r w))"
proof -
  from ServeDNS_trace_prefix obtain es1 where 1: "trace (ServeDNS env s r w) = trace w @ es1"
    by blast
  from run_trace_prefix obtain es2 where
    2: "trace (run s ops (ServeDNS env s r w)) = trace (ServeDNS env s r w) @ es2"
    by blast
  show ?thesis
    by (simp add: new_events_def 1 2)
qed

lemma ServeDNS_host_step:
  assumes "wf_world s w"
  shows "heap (ServeDNS env s r w) (Host s) =
     (if first_question_A_for_host r then SetReply (heap w (Host s)) r else heap w (Host s))"
proof (cases rule: ServeDNS_cases [where r = r and env = env and s = s and w = w])
  case host
  then show ?thesis by simp
next
  case (hit a expiration)
  with assms have "a \<noteq> Host s"
    by (auto simp add: wf_world_def)
  with hit show ?thesis
    by (simp add: first_question_A_for_host_def)
next
  case (miss_ok m es ws)
  with assms show ?thesis
    by (simp add: first_question_A_for_host_def wf_world_def)
next
  case (miss_fail err es ws)
  then show ?thesis
    by (simp add: first_question_A_for_host_def)
next
  case (relay_ok m es ws)
  with assms show ?thesis
    by (simp add: first_question_A_for_host_def wf_world_def)
next
  case (relay_fail es ws)
  then show ?thesis
    by (simp add: first_question_A_for_host_def)
qed

lemma ServeDNS_wf:
  assumes "wf_world s w"
  shows "wf_world s (ServeDNS env s r w)"
proof (cases rule: ServeDNS_cases [where r = r and env = env and s = s and w = w])
  case host
  with assms show ?thesis by (simp add: wf_world_def)
next
  case (hit a expiration)
  with assms show ?thesis by (simp add: wf_world_def)
next
  case (miss_ok m es ws)
  with assms show ?thesis by (auto simp add: wf_world_def less_Suc_eq)
next
  case (miss_fail err es ws)
  with assms show ?thesis by (simp add: wf_world_def)
next
  case (relay_ok m es ws)
  with assms show ?thesis by (auto simp add: wf_world_def less_Suc_eq)
next
  case (relay_fail es ws)
  with assms show ?thesis by (simp add: wf_world_def)
qed

lemma same_records_refl: "same_records m m"
  by (simp add: same_records_def)

lemma same_records_trans: "same_records a b \<Longrightarrow> same_records b c \<Longrightarrow> same_records a c"
  by (simp add: same_records_def)

lemma run_host_same_records:
  "wf_world s w \<Longrightarrow> same_records (heap w (Host s)) (heap (run s ops w) (Host s))"
proof (induction ops arbitrary: w)
  case Nil
  show ?case by (simp add: same_records_refl)
next
  case (Cons op ops)
  obtain env r where op: "op = (env, r)"
    by (cases op)
  have "same_records (heap w (Host s)) (heap (ServeDNS env s r w) (Host s))"
    by (simp add: ServeDNS_host_step [OF Cons.prems] same_records_refl SetReply_same_records)
  moreover have "same_records (heap (ServeDNS env s r w) (Host s))
      (heap (run s ops (ServeDNS env s r w)) (Host s))"
    by (rule Cons.IH) (rule ServeDNS_wf [OF Cons.prems])
  ultimately show ?case
    by (simp add: op) (rule same_records_trans)
qed

lemma run_host_unchanged:
  "wf_world s w \<Longrightarrow> \<forall>op \<in> set ops. \<not> first_question_A_for_host (snd op) \<Longrightarrow>
   heap (run s ops w) (Host s) = heap w (Host s)"
proof (induction ops arbitrary: w)
  case Nil
  show ?case by simp
next
  case (Cons op ops)
  obtain env r where op: "op = (env, r)"
    by (cases op)
  from Cons.prems(2) op have n: "\<not> first_question_A_for_host r"
    by simp
  have "heap (run s ops (ServeDNS env s r w)) (Host s) = heap (ServeDNS env s r w) (Host s)"
    using Cons.prems(2) by (intro Cons.IH ServeDNS_wf [OF Cons.prems(1)]) simp
  with n show ?case
    by (simp add: op ServeDNS_host_step [OF Cons.prems(1)])
qed

lemma SetReply_recursion_bits:
  "RecursionDesired (SetReply d r) =
     (if Opcode r = OpcodeQuery then RecursionDesired r else RecursionDesired d) \<and>
   CheckingDisabled (SetReply d r) =
     (if Opcode r = OpcodeQuery then CheckingDisabled r else CheckingDisabled d)"
  by (simp add: SetReply_def Let_def)

text \<open>
  C8 (amended): in a world where the host record and the cached messages are distinct
  allocated objects, as \<^verbatim>\<open>RunDNS\<close> leaves it, every sequence of queries keeps the host
  record's answer, authority and additional sections and its authoritative, truncated,
  recursion-available, zero, authenticated-data and compress fields. A sequence in which
  no query takes the self-host shortcut leaves the whole record unchanged. A query that
  takes the shortcut rewrites the record in place as \<^verbatim>\<open>SetReply\<close> does: transaction
  ID and opcode become the query's, the response flag is set, the response code becomes
  success, the question section becomes the query's first question, and the
  recursion-desired and checking-disabled bits become the query's when its opcode is
  QUERY and are kept otherwise.
\<close>

theorem Host_record_sections_preserved:
  assumes "wf_world s w"
  shows "same_records (heap w (Host s)) (heap (run s ops w) (Host s)) \<and>
         Answer (heap (run s ops w) (Host s)) = Answer (heap w (Host s)) \<and>
         ((\<forall>op \<in> set ops. \<not> first_question_A_for_host (snd op)) \<longrightarrow>
            heap (run s ops w) (Host s) = heap w (Host s)) \<and>
         (first_question_A_for_host r \<longrightarrow>
            heap (ServeDNS env s r w) (Host s) = SetReply (heap w (Host s)) r \<and>
            Id_hdr (heap (ServeDNS env s r w) (Host s)) = Id_hdr r \<and>
            Opcode (heap (ServeDNS env s r w) (Host s)) = Opcode r \<and>
            Response (heap (ServeDNS env s r w) (Host s)) \<and>
            Rcode (heap (ServeDNS env s r w) (Host s)) = RcodeSuccess \<and>
            Question (heap (ServeDNS env s r w) (Host s)) = [Question r ! 0] \<and>
            (Opcode r = OpcodeQuery \<longrightarrow>
               RecursionDesired (heap (ServeDNS env s r w) (Host s)) = RecursionDesired r \<and>
               CheckingDisabled (heap (ServeDNS env s r w) (Host s)) = CheckingDisabled r) \<and>
            (Opcode r \<noteq> OpcodeQuery \<longrightarrow>
               RecursionDesired (heap (ServeDNS env s r w) (Host s)) =
                 RecursionDesired (heap w (Host s)) \<and>
               CheckingDisabled (heap (ServeDNS env s r w) (Host s)) =
                 CheckingDisabled (heap w (Host s))))"
proof -
  have q: "Question (SetReply (heap w (Host s)) r) = [Question r ! 0]"
    if "first_question_A_for_host r"
    using that
    by (simp add: SetReply_Question first_question_A_for_host_def is_A_query_Question)
  show ?thesis
    using run_host_same_records [OF assms, of ops] run_host_unchanged [OF assms, of ops] q
    by (simp add: ServeDNS_host_step [OF assms] same_records_def SetReply_header
        SetReply_recursion_bits)
qed

section \<open>Bootstrap\<close>

lemma getDohHostAddr_fail:
  "attempt env k = Inl e \<Longrightarrow>
   getDohHostAddr env k w =
     (Inl e, emit (EvExchange (bootstrap_query env k) CLOUDFLARE_DNS) w)"
  by (simp add: getDohHostAddr_def attempt_def bootstrap_query_def Let_def)

lemma getDohHostAddr_ok:
  "attempt env k = Inr m \<Longrightarrow>
   getDohHostAddr env k w =
     (Inr (nxt w),
      w\<lparr>heap := (heap w)(nxt w := m), nxt := Suc (nxt w),
        trace := trace w @ [EvExchange (bootstrap_query env k) CLOUDFLARE_DNS]\<rparr>)"
  by (simp add: getDohHostAddr_def attempt_def bootstrap_query_def Let_def emit_def)

lemma retry_attempts_empty [simp]: "retry_attempts env i i = []"
  by (simp add: retry_attempts_def)

lemma retry_attempts_step:
  "i < k \<Longrightarrow>
   retry_attempts env i k =
     EvSleep 1 # EvExchange (bootstrap_query env i) CLOUDFLARE_DNS # retry_attempts env (Suc i) k"
  by (simp add: retry_attempts_def upt_conv_Cons)

lemma retry_loop_all_fail:
  "n = 6 - i \<Longrightarrow> i \<le> 6 \<Longrightarrow> \<forall>j. i \<le> j \<and> j < 6 \<longrightarrow> isl (attempt env j) \<Longrightarrow>
   \<exists>e' es. retry_loop env i e w = (Inl e', w\<lparr>trace := trace w @ es\<rparr>) \<and>
           filter is_attempt_event es = retry_attempts env i 6 \<and>
           filter is_start es = []"
proof (induction n arbitrary: i e w)
  case 0
  then have "i = 6" by simp
  then show ?case
    by (intro exI [of _ e] exI [of _ "[]"]) (simp add: retry_loop.simps)
next
  case (Suc n)
  then have i: "i < 6" by simp
  with Suc.prems(3) obtain e1 where a: "attempt env i = Inl e1"
    by (metis isl_def le_refl)
  let ?w3 = "emit (EvExchange (bootstrap_query env i) CLOUDFLARE_DNS)
               (emit (EvLogPrintf (''retry '' @ Itoa (int i) @ ''...'')) (emit (EvSleep 1) w))"
  let ?w4 = "emit (EvWriteErrorLogMsg bootstrap_failed e1) ?w3"
  have step: "retry_loop env i e w = retry_loop env (Suc i) e1 ?w4"
    using i by (subst retry_loop.simps) (simp add: Let_def getDohHostAddr_fail [OF a])
  from Suc.prems have "n = 6 - Suc i" "Suc i \<le> 6"
    "\<forall>j. Suc i \<le> j \<and> j < 6 \<longrightarrow> isl (attempt env j)"
    by simp_all
  from Suc.IH [OF this, of e1 ?w4] obtain e' es where
    r: "retry_loop env (Suc i) e1 ?w4 = (Inl e', ?w4\<lparr>trace := trace ?w4 @ es\<rparr>)"
    and f: "filter is_attempt_event es = retry_attempts env (Suc i) 6"
      "filter is_start es = []"
    by blast
  let ?es = "[EvSleep 1, EvLogPrintf (''retry '' @ Itoa (int i) @ ''...''),
              EvExchange (bootstrap_query env i) CLOUDFLARE_DNS,
              EvWriteErrorLogMsg bootstrap_failed e1] @ es"
  have "retry_loop env i e w = (Inl e', w\<lparr>trace := trace w @ ?es\<rparr>)"
    unfolding step r by (simp add: emit_def)
  moreover have "filter is_attempt_event ?es = retry_attempts env i 6"
    using i by (simp add: f retry_attempts_step)
  moreover have "filter is_start ?es = []"
    by (simp add: f)
  ultimately show ?case
    by blast
qed

lemma retry_loop_success:
  "n = k - i \<Longrightarrow> i \<le> k \<Longrightarrow> k < 6 \<Longrightarrow> \<forall>j. i \<le> j \<and> j < k \<longrightarrow> isl (attempt env j) \<Longrightarrow>
   attempt env k = Inr m \<Longrightarrow>
   \<exists>es. retry_loop env i e w =
           (Inr (nxt w), w\<lparr>heap := (heap w)(nxt w := m), nxt := Suc (nxt w),
                            trace := trace w @ es\<rparr>) \<and>
        filter is_attempt_event es = retry_attempts env i (Suc k) \<and>
        filter is_start es = []"
proof (induction n arbitrary: i e w)
  case 0
  then have ik: "i = k" by simp
  let ?es = "[EvSleep 1, EvLogPrintf (''retry '' @ Itoa (int i) @ ''...''),
              EvExchange (bootstrap_query env i) CLOUDFLARE_DNS]"
  have "retry_loop env i e w =
      (Inr (nxt w), w\<lparr>heap := (heap w)(nxt w := m), nxt := Suc (nxt w),
                       trace := trace w @ ?es\<rparr>)"
    using "0.prems"(3,5) ik
    by (subst retry_loop.simps) (simp add: Let_def getDohHostAddr_ok emit_def)
  moreover have "filter is_attempt_event ?es = retry_attempts env i (Suc k)"
    by (simp add: ik retry_attempts_step)
  moreover have "filter is_start ?es = []"
    by simp
  ultimately show ?case
    by blast
next
  case (Suc n)
  then have i: "i < k" "i < 6" by simp_all
  with Suc.prems(4) obtain e1 where a: "attempt env i = Inl e1"
    by (metis isl_def le_refl)
  let ?w3 = "emit (EvExchange (bootstrap_query env i) CLOUDFLARE_DNS)
               (emit (EvLogPrintf (''retry '' @ Itoa (int i) @ ''...'')) (emit (EvSleep 1) w))"
  let ?w4 = "emit (EvWriteErrorLogMsg bootstrap_failed e1) ?w3"
  have step: "retry_loop env i e w = retry_loop env (Suc i) e1 ?w4"
    using i by (subst retry_loop.simps) (simp add: Let_def getDohHostAddr_fail [OF a])
  from Suc.prems have "n = k - Suc i" "Suc i \<le> k" "k < 6"
    "\<forall>j. Suc i \<le> j \<and> j < k \<longrightarrow> isl (attempt env j)" "attempt env k = Inr m"
    by simp_all
  from Suc.IH [OF this, of e1 ?w4] obtain es where
    r: "retry_loop env (Suc i) e1 ?w4 =
          (Inr (nxt ?w4), ?w4\<lparr>heap := (heap ?w4)(nxt ?w4 := m), nxt := Suc (nxt ?w4),
                              trace := trace ?w4 @ es\<rparr>)"
    and f: "filter is_attempt_event es = retry_attempts env (Suc i) (Suc k)"
      "filter is_start es = []"
    by blast
  let ?es = "[EvSleep 1, EvLogPrintf (''retry '' @ Itoa (int i) @ ''...''),
              EvExchange (bootstrap_query env i) CLOUDFLARE_DNS,
              EvWriteErrorLogMsg bootstrap_failed e1] @ es"
  have "retry_loop env i e w =
      (Inr (nxt w), w\<lparr>heap := (heap w)(nxt w := m), nxt := Suc (nxt w),
                       trace := trace w @ ?es\<rparr>)"
    unfolding step r by (simp add: emit_def)
  moreover have "filter is_attempt_event ?es = retry_attempts env i (Suc k)"
    using i by (simp add: f retry_attempts_step)
  moreover have "filter is_start ?es = []"
    by (simp add: f)
  ultimately show ?case
    by blast
qed

lemma RunDNS_all_fail:
  assumes "\<forall>j<6. isl (attempt env j)"
  shows "\<exists>es. RunDNS env port w =
           (Inl (DohError ''Failed to obtain Cloudflare's DOH server address. The DNS service could not be started.''),
            w\<lparr>trace := trace w @ es\<rparr>) \<and>
         filter is_attempt_event es = attempts_upto env 5 \<and> filter is_start es = []"
proof -
  from assms obtain e0 where a: "attempt env 0 = Inl e0"
    by (metis isl_def zero_less_numeral)
  let ?w1 = "emit (EvWriteErrorLogMsg bootstrap_failed e0)
               (emit (EvExchange (bootstrap_query env 0) CLOUDFLARE_DNS) w)"
  from assms have "\<forall>j. 1 \<le> j \<and> j < 6 \<longrightarrow> isl (attempt env j)"
    by simp
  from retry_loop_all_fail [OF _ _ this, of 5 e0 ?w1] obtain e' es where
    r: "retry_loop env 1 e0 ?w1 = (Inl e', ?w1\<lparr>trace := trace ?w1 @ es\<rparr>)"
    and f: "filter is_attempt_event es = retry_attempts env 1 6" "filter is_start es = []"
    by auto
  let ?es = "[EvExchange (bootstrap_query env 0) CLOUDFLARE_DNS,
              EvWriteErrorLogMsg bootstrap_failed e0] @ es"
  have "RunDNS env port w =
      (Inl (DohError ''Failed to obtain Cloudflare's DOH server address. The DNS service could not be started.''),
       w\<lparr>trace := trace w @ ?es\<rparr>)"
    unfolding RunDNS_def getDohHostAddr_fail [OF a] prod.case sum.case r
    by (simp add: emit_def newErr_def)
  moreover have "filter is_attempt_event ?es = attempts_upto env 5"
    by (simp add: f attempts_upto_def)
  moreover have "filter is_start ?es = []"
    by (simp add: f)
  ultimately show ?thesis
    by blast
qed

lemma RunDNS_success:
  assumes "k < 6" and "\<forall>j<k. isl (attempt env j)" and "attempt env k = Inr m"
  shows "\<exists>es. RunDNS env port w =
           (Inr \<lparr>Addr = '':'' @ Itoa port, Net = ''udp'',
                 Handler = \<lparr>ServiceType = ''UDP'', Host = nxt w\<rparr>\<rparr>,
            w\<lparr>heap := (heap w)(nxt w := m), nxt := Suc (nxt w), NameCache := Map.empty,
              trace := trace w @ es @
                [EvCacheNew defaultExpiration cleanupInterval,
                 EvListenAndServe ('':'' @ Itoa port) ''udp'']\<rparr>) \<and>
         filter is_attempt_event es = attempts_upto env k \<and> filter is_start es = []"
proof (cases k)
  case 0
  let ?es = "[EvExchange (bootstrap_query env 0) CLOUDFLARE_DNS]"
  from assms(3) 0 have a: "attempt env 0 = Inr m"
    by simp
  have "RunDNS env port w =
      (Inr \<lparr>Addr = '':'' @ Itoa port, Net = ''udp'',
            Handler = \<lparr>ServiceType = ''UDP'', Host = nxt w\<rparr>\<rparr>,
       w\<lparr>heap := (heap w)(nxt w := m), nxt := Suc (nxt w), NameCache := Map.empty,
         trace := trace w @ ?es @
           [EvCacheNew defaultExpiration cleanupInterval,
            EvListenAndServe ('':'' @ Itoa port) ''udp'']\<rparr>)"
    unfolding RunDNS_def getDohHostAddr_ok [OF a] prod.case sum.case
    by (simp add: emit_def Let_def)
  moreover have "filter is_attempt_event ?es = attempts_upto env k"
    by (simp add: 0 attempts_upto_def)
  moreover have "filter is_start ?es = []"
    by simp
  ultimately show ?thesis
    by blast
next
  case (Suc k')
  with assms(2) obtain e0 where a: "attempt env 0 = Inl e0"
    by (metis isl_def zero_less_Suc)
  let ?w1 = "emit (EvWriteErrorLogMsg bootstrap_failed e0)
               (emit (EvExchange (bootstrap_query env 0) CLOUDFLARE_DNS) w)"
  from assms(2) have "\<forall>j. 1 \<le> j \<and> j < k \<longrightarrow> isl (attempt env j)"
    by simp
  from retry_loop_success [OF _ _ assms(1) this assms(3), of k' e0 ?w1] Suc obtain es where
    r: "retry_loop env 1 e0 ?w1 =
          (Inr (nxt ?w1), ?w1\<lparr>heap := (heap ?w1)(nxt ?w1 := m), nxt := Suc (nxt ?w1),
                              trace := trace ?w1 @ es\<rparr>)"
    and f: "filter is_attempt_event es = retry_attempts env 1 (Suc k)" "filter is_start es = []"
    by auto
  let ?es = "[EvExchange (bootstrap_query env 0) CLOUDFLARE_DNS,
              EvWriteErrorLogMsg bootstrap_failed e0] @ es"
  have "RunDNS env port w =
      (Inr \<lparr>Addr = '':'' @ Itoa port, Net = ''udp'',
            Handler = \<lparr>ServiceType = ''UDP'', Host = nxt w\<rparr>\<rparr>,
       w\<lparr>heap := (heap w)(nxt w := m), nxt := Suc (nxt w), NameCache := Map.empty,
         trace := trace w @ ?es @
           [EvCacheNew defaultExpiration cleanupInterval,
            EvListenAndServe ('':'' @ Itoa port) ''udp'']\<rparr>)"
    unfolding RunDNS_def getDohHostAddr_fail [OF a] prod.case sum.case r
    by (simp add: emit_def Let_def)
  moreover have "filter is_attempt_event ?es = attempts_upto env k"
    by (simp add: f attempts_upto_def)
  moreover have "filter is_start ?es = []"
    by (simp add: f)
  ultimately show ?thesis
    by blast
qed

text \<open>
  C4: \<^verbatim>\<open>RunDNS\<close> first tries to resolve the upstream hostname. When all six attempts
  fail it returns the bootstrap error, having made six resolver calls with a one-second
  sleep before each of the five retries, and it neither creates the cache and handler
  nor starts the listener. When attempt \<open>k\<close> (counted from 0, below 6) is the first to
  succeed, no further attempt is made, the handler is built on the resolved message with
  an empty cache, and the listener is started on the given port.
\<close>

theorem RunDNS_bootstrap_retries:
  "((\<forall>j<6. isl (attempt env j)) \<longrightarrow>
      fst (RunDNS env port w) =
        Inl (DohError ''Failed to obtain Cloudflare's DOH server address. The DNS service could not be started.'') \<and>
      filter is_attempt_event (new_events w (snd (RunDNS env port w))) = attempts_upto env 5 \<and>
      filter is_start (new_events w (snd (RunDNS env port w))) = [] \<and>
      NameCache (snd (RunDNS env port w)) = NameCache w) \<and>
   (k < 6 \<longrightarrow> (\<forall>j<k. isl (attempt env j)) \<longrightarrow> attempt env k = Inr m \<longrightarrow>
      fst (RunDNS env port w) =
        Inr \<lparr>Addr = '':'' @ Itoa port, Net = ''udp'',
              Handler = \<lparr>ServiceType = ''UDP'', Host = nxt w\<rparr>\<rparr> \<and>
      heap (snd (RunDNS env port w)) (nxt w) = m \<and>
      NameCache (snd (RunDNS env port w)) = Map.empty \<and>
      filter is_attempt_event (new_events w (snd (RunDNS env port w))) = attempts_upto env k \<and>
      filter is_start (new_events w (snd (RunDNS env port w))) =
        [EvCacheNew defaultExpiration cleanupInterval,
         EvListenAndServe ('':'' @ Itoa port) ''udp''] \<and>
      last (trace (snd (RunDNS env port w))) = EvListenAndServe ('':'' @ Itoa port) ''udp'')"
proof (intro conjI impI)
  assume "\<forall>j<6. isl (attempt env j)"
  from RunDNS_all_fail [OF this, of port w] obtain es where
    "RunDNS env port w =
       (Inl (DohError ''Failed to obtain Cloudflare's DOH server address. The DNS service could not be started.''),
        w\<lparr>trace := trace w @ es\<rparr>)"
    "filter is_attempt_event es = attempts_upto env 5" "filter is_start es = []"
    by blast
  then show
    "fst (RunDNS env port w) =
       Inl (DohError ''Failed to obtain Cloudflare's DOH server address. The DNS service could not be started.'')"
    "filter is_attempt_event (new_events w (snd (RunDNS env port w))) = attempts_upto env 5"
    "filter is_start (new_events w (snd (RunDNS env port w))) = []"
    "NameCache (snd (RunDNS env port w)) = NameCache w"
    by (simp_all add: new_events_def)
next
  assume "k < 6" "\<forall>j<k. isl (attempt env j)" "attempt env k = Inr m"
  from RunDNS_success [OF this, of port w] obtain es where
    "RunDNS env port w =
       (Inr \<lparr>Addr = '':'' @ Itoa port, Net = ''udp'',
             Handler = \<lparr>ServiceType = ''UDP'', Host = nxt w\<rparr>\<rparr>,
        w\<lparr>heap := (heap w)(nxt w := m), nxt := Suc (nxt w), NameCache := Map.empty,
          trace := trace w @ es @
            [EvCacheNew defaultExpiration cleanupInterval,
             EvListenAndServe ('':'' @ Itoa port) ''udp'']\<rparr>)"
    "filter is_attempt_event es = attempts_upto env k" "filter is_start es = []"
    by blast
  then show
    "fst (RunDNS env port w) =
        Inr \<lparr>Addr = '':'' @ Itoa port, Net = ''udp'',
              Handler = \<lparr>ServiceType = ''UDP'', Host = nxt w\<rparr>\<rparr>"
    "heap (snd (RunDNS env port w)) (nxt w) = m"
    "NameCache (snd (RunDNS env port w)) = Map.empty"
    "filter is_attempt_event (new_events w (snd (RunDNS env port w))) = attempts_upto env k"
    "filter is_start (new_events w (snd (RunDNS env port w))) =
        [EvCacheNew defaultExpiration cleanupInterval,
         EvListenAndServe ('':'' @ Itoa port) ''udp'']"
    "last (trace (snd (RunDNS env port w))) = EvListenAndServe ('':'' @ Itoa port) ''udp''"
    by (simp_all add: new_events_def)
qed

lemma benv_down_attempt: "isl (attempt benv_down j)"
  by (simp add: attempt_def benv_down_def)

lemma benv_third_attempt:
  "\<forall>j<2. isl (attempt benv_third j)" "attempt benv_third 2 = Inr host_reply"
  by (simp_all add: attempt_def benv_third_def)

lemma benv_query:
  "bootstrap_query benv_down j = bootstrap_query benv_down 0"
  "bootstrap_query benv_third j = bootstrap_query benv_down 0"
  by (simp_all add: bootstrap_query_def benv_down_def benv_third_def)

lemma attempts_upto_down:
  "attempts_upto benv_down 5 =
     [EvExchange (bootstrap_query benv_down 0) ''1.1.1.1:53'', EvSleep 1,
      EvExchange (bootstrap_query benv_down 0) ''1.1.1.1:53'', EvSleep 1,
      EvExchange (bootstrap_query benv_down 0) ''1.1.1.1:53'', EvSleep 1,
      EvExchange (bootstrap_query benv_down 0) ''1.1.1.1:53'', EvSleep 1,
      EvExchange (bootstrap_query benv_down 0) ''1.1.1.1:53'', EvSleep 1,
      EvExchange (bootstrap_query benv_down 0) ''1.1.1.1:53'']"
  by (simp add: attempts_upto_def retry_attempts_def upt_conv_Cons benv_query(1) [of "Suc _"]
      benv_query(1) [of "numeral _"] CLOUDFLARE_DNS_def)

lemma attempts_upto_third:
  "attempts_upto benv_third 2 =
     [EvExchange (bootstrap_query benv_down 0) ''1.1.1.1:53'', EvSleep 1,
      EvExchange (bootstrap_query benv_down 0) ''1.1.1.1:53'', EvSleep 1,
      EvExchange (bootstrap_query benv_down 0) ''1.1.1.1:53'']"
  by (simp add: attempts_upto_def retry_attempts_def upt_conv_Cons benv_query(2)
      CLOUDFLARE_DNS_def)

theorem RunDNS_bootstrap_retries_witness:
  "fst (RunDNS benv_down 53 w0) =
     Inl (DohError ''Failed to obtain Cloudflare's DOH server address. The DNS service could not be started.'') \<and>
   filter is_attempt_event (new_events w0 (snd (RunDNS benv_down 53 w0))) =
     [EvExchange (bootstrap_query benv_down 0) ''1.1.1.1:53'', EvSleep 1,
      EvExchange (bootstrap_query benv_down 0) ''1.1.1.1:53'', EvSleep 1,
      EvExchange (bootstrap_query benv_down 0) ''1.1.1.1:53'', EvSleep 1,
      EvExchange (bootstrap_query benv_down 0) ''1.1.1.1:53'', EvSleep 1,
      EvExchange (bootstrap_query benv_down 0) ''1.1.1.1:53'', EvSleep 1,
      EvExchange (bootstrap_query benv_down 0) ''1.1.1.1:53''] \<and>
   filter is_start (new_events w0 (snd (RunDNS benv_down 53 w0))) = [] \<and>
   fst (RunDNS benv_third 53 w0) = Inr srv_53 \<and>
   heap (snd (RunDNS benv_third 53 w0)) 0 = host_reply \<and>
   filter is_attempt_event (new_events w0 (snd (RunDNS benv_third 53 w0))) =
     [EvExchange (bootstrap_query benv_down 0) ''1.1.1.1:53'', EvSleep 1,
      EvExchange (bootstrap_query benv_down 0) ''1.1.1.1:53'', EvSleep 1,
      EvExchange (bootstrap_query benv_down 0) ''1.1.1.1:53''] \<and>
   filter is_start (new_events w0 (snd (RunDNS benv_third 53 w0))) =
     [EvCacheNew defaultExpiration cleanupInterval, EvListenAndServe '':53'' ''udp'']"
proof -
  have i: "Itoa 53 = ''53''"
    by (simp add: Itoa_def digits.simps)
  have n: "nxt w0 = 0"
    by (simp add: w0_def)
  have d: "\<forall>j<6. isl (attempt benv_down j)"
    by (simp add: benv_down_attempt)
  show ?thesis
    using RunDNS_bootstrap_retries [of benv_down 53 w0 0 host_reply]
      RunDNS_bootstrap_retries [of benv_third 53 w0 2 host_reply]
      d benv_third_attempt
    by (simp add: attempts_upto_down attempts_upto_third i n srv_53_def s0_def)
qed

section \<open>The host record after start\<close>

lemma RunDNS_wf:
  assumes "RunDNS env port w = (Inr srv, w')"
  shows "wf_world (Handler srv) w' \<and> NameCache w' = Map.empty"
proof -
  have "\<not> (\<forall>j<6. isl (attempt env j))"
  proof
    assume "\<forall>j<6. isl (attempt env j)"
    from RunDNS_all_fail [OF this, of port w] assms show False
      by auto
  qed
  then obtain j where j: "j < 6" "\<not> isl (attempt env j)"
    by blast
  define k where "k = (LEAST j. j < 6 \<and> \<not> isl (attempt env j))"
  have k: "k < 6 \<and> \<not> isl (attempt env k)"
    unfolding k_def by (rule LeastI [of _ j]) (simp add: j)
  have before: "\<forall>i<k. isl (attempt env i)"
  proof (intro allI impI)
    fix i assume "i < k"
    with k have "i < 6" by simp
    with \<open>i < k\<close> show "isl (attempt env i)"
      using not_less_Least [of i "\<lambda>j. j < 6 \<and> \<not> isl (attempt env j)"]
      by (auto simp add: k_def)
  qed
  from k obtain m where m: "attempt env k = Inr m"
    by (cases "attempt env k") simp_all
  from RunDNS_success [OF _ before m, of port w] k assms show ?thesis
    by (auto simp add: wf_world_def)
qed

lemma wf_w_host: "wf_world s0 w_host"
  by (simp add: wf_world_def s0_def w_host_def)

lemma q_host_first_host: "first_question_A_for_host q_host"
  by (simp add: first_question_A_for_host_def is_A_query_def q_host_def
      CLOUDFLARE_DOH_HOST_def TypeA_def new_Msg_def)

lemma SetReply_host_reply: "SetReply host_reply q_host = host_reply\<lparr>Id_hdr := 48879\<rparr>"
  by (simp add: SetReply_def q_host_def host_reply_def new_Msg_def
      OpcodeQuery_def RcodeSuccess_def)

lemma w_host_heap: "heap w_host (Host s0) = host_reply"
  by (simp add: w_host_def s0_def)

lemma q_host_notify_first_host: "first_question_A_for_host q_host_notify"
  by (simp add: first_question_A_for_host_def is_A_query_def q_host_notify_def q_host_def
      CLOUDFLARE_DOH_HOST_def TypeA_def new_Msg_def)

theorem Host_record_sections_preserved_witness:
  "wf_world s0 w_host \<and>
   Answer (heap (run s0 [(env_neterr, q_host), (env_ok, q_example)] w_host) (Host s0)) =
     [a_host] \<and>
   heap (run s0 [(env_ok, q_example), (env_neterr, q_aaaa)] w_host) (Host s0) = host_reply \<and>
   heap (ServeDNS env_neterr s0 q_host w_host) (Host s0) = host_reply\<lparr>Id_hdr := 48879\<rparr> \<and>
   Opcode (heap (ServeDNS env_neterr s0 q_host_notify w_host) (Host s0)) = 4 \<and>
   RecursionDesired (heap (ServeDNS env_neterr s0 q_host_notify w_host) (Host s0)) \<and>
   \<not> RecursionDesired q_host_notify"
proof -
  have a: "Answer host_reply = [a_host]"
    by (simp add: host_reply_def)
  have n: "\<forall>op \<in> set [(env_ok, q_example), (env_neterr, q_aaaa)].
      \<not> first_question_A_for_host (snd op)"
    by (simp add: q_example_not_first_host q_aaaa_not_first_host)
  have o: "Opcode q_host_notify = 4" "Opcode q_host_notify \<noteq> OpcodeQuery"
    "\<not> RecursionDesired q_host_notify" "RecursionDesired host_reply"
    by (simp_all add: q_host_notify_def q_host_def new_Msg_def OpcodeQuery_def host_reply_def)
  have 1: "Answer (heap (run s0 [(env_neterr, q_host), (env_ok, q_example)] w_host) (Host s0)) =
      [a_host]"
    using Host_record_sections_preserved [OF wf_w_host,
        of "[(env_neterr, q_host), (env_ok, q_example)]" q_host env_neterr]
    by (simp add: w_host_heap a)
  have 2: "heap (run s0 [(env_ok, q_example), (env_neterr, q_aaaa)] w_host) (Host s0) =
        host_reply \<and>
      heap (ServeDNS env_neterr s0 q_host w_host) (Host s0) = host_reply\<lparr>Id_hdr := 48879\<rparr>"
    using Host_record_sections_preserved [OF wf_w_host,
        of "[(env_ok, q_example), (env_neterr, q_aaaa)]" q_host env_neterr]
      n q_host_first_host
    by (simp add: w_host_heap SetReply_host_reply)
  have 3: "Opcode (heap (ServeDNS env_neterr s0 q_host_notify w_host) (Host s0)) = 4 \<and>
      RecursionDesired (heap (ServeDNS env_neterr s0 q_host_notify w_host) (Host s0))"
    using Host_record_sections_preserved [OF wf_w_host, of "[]" q_host_notify env_neterr]
      q_host_notify_first_host o
    by (simp add: w_host_heap SetReply_header SetReply_recursion_bits)
  show ?thesis
    using wf_w_host 1 2 3 o(3) by simp
qed

text \<open>
  C8 as stated fails: after \<^verbatim>\<open>RunDNS\<close> has returned the server, whose host record is the
  resolver's reply, one self-host shortcut query leaves a different message at the host
  record's address.
\<close>

theorem Host_record_mutated_counterexample:
  "fst (RunDNS benv_ok 53 w0) = Inr srv_53 \<and>
   heap (snd (RunDNS benv_ok 53 w0)) (Host (Handler srv_53)) = host_reply \<and>
   heap (ServeDNS env_neterr (Handler srv_53) q_host (snd (RunDNS benv_ok 53 w0)))
     (Host (Handler srv_53)) \<noteq> host_reply"
proof -
  have a: "attempt benv_ok 0 = Inr host_reply"
    by (simp add: attempt_def benv_ok_def)
  have i: "Itoa 53 = ''53''"
    by (simp add: Itoa_def digits.simps)
  from RunDNS_success [OF _ _ a, of 53 w0] obtain es where
    r: "RunDNS benv_ok 53 w0 =
       (Inr \<lparr>Addr = '':'' @ Itoa 53, Net = ''udp'',
             Handler = \<lparr>ServiceType = ''UDP'', Host = nxt w0\<rparr>\<rparr>,
        w0\<lparr>heap := (heap w0)(nxt w0 := host_reply), nxt := Suc (nxt w0),
           NameCache := Map.empty,
           trace := trace w0 @ es @
             [EvCacheNew defaultExpiration cleanupInterval,
              EvListenAndServe ('':'' @ Itoa 53) ''udp'']\<rparr>)"
    by auto
  have 1: "fst (RunDNS benv_ok 53 w0) = Inr srv_53"
    unfolding r by (simp add: i srv_53_def s0_def w0_def)
  have 2: "heap (snd (RunDNS benv_ok 53 w0)) (Host (Handler srv_53)) = host_reply"
    unfolding r by (simp add: srv_53_def s0_def w0_def)
  have "heap (ServeDNS env_neterr (Handler srv_53) q_host (snd (RunDNS benv_ok 53 w0)))
     (Host (Handler srv_53)) = host_reply\<lparr>Id_hdr := 48879\<rparr>"
    by (simp add: ServeDNS_host [OF q_host_first_host] 2 SetReply_host_reply)
  moreover have "host_reply\<lparr>Id_hdr := 48879\<rparr> \<noteq> host_reply"
  proof
    assume "host_reply\<lparr>Id_hdr := 48879\<rparr> = host_reply"
    then have "Id_hdr (host_reply\<lparr>Id_hdr := 48879\<rparr>) = Id_hdr host_reply"
      by simp
    then show False
      by (simp add: host_reply_def new_Msg_def)
  qed
  ultimately show ?thesis
    using 1 2 by simp
qed

section \<open>What the cache receives\<close>

lemma ServeDNS_cache_set_keys:
  "cache_set_keys (new_events w (ServeDNS env s r w)) = [] \<or>
   is_A_query r \<and> cache_set_keys (new_events w (ServeDNS env s r w)) = [Name (Question r ! 0)]"
  by (cases rule: ServeDNS_cases [where r = r and env = env and s = s and w = w])
     (simp_all add: new_events_def cache_set_keys_append filter_transport_events)

lemma ServeDNS_cache_dom:
  "dom (NameCache (ServeDNS env s r w)) \<subseteq>
     dom (NameCache w) \<union> (if is_A_query r then {Name (Question r ! 0)} else {})"
  by (cases rule: ServeDNS_cases [where r = r and env = env and s = s and w = w]) auto

lemma A_query_names_Cons:
  "A_query_names ((env, r) # ops) =
     (if is_A_query r then [Name (Question r ! 0)] else []) @ A_query_names ops"
  by (simp add: A_query_names_def)

lemma run_cache_set_keys:
  "set (cache_set_keys (new_events w (run s ops w))) \<subseteq> set (A_query_names ops)"
proof (induction ops arbitrary: w)
  case Nil
  show ?case by (simp add: new_events_def)
next
  case (Cons op ops)
  obtain env r where op: "op = (env, r)"
    by (cases op)
  have "set (cache_set_keys (new_events w (ServeDNS env s r w))) \<subseteq>
      set (if is_A_query r then [Name (Question r ! 0)] else [])"
    using ServeDNS_cache_set_keys [of w env s r] by auto
  moreover have "new_events w (run s (op # ops) w) =
      new_events w (ServeDNS env s r w) @
      new_events (ServeDNS env s r w) (run s ops (ServeDNS env s r w))"
    unfolding op by (rule new_events_run_Cons)
  moreover note Cons.IH [of "ServeDNS env s r w"]
  ultimately show ?case
    by (auto simp add: op cache_set_keys_append A_query_names_Cons simp del: run.simps
        split: if_splits)
qed

lemma run_cache_dom:
  "dom (NameCache (run s ops w)) \<subseteq> dom (NameCache w) \<union> set (A_query_names ops)"
proof (induction ops arbitrary: w)
  case Nil
  show ?case by simp
next
  case (Cons op ops)
  obtain env r where op: "op = (env, r)"
    by (cases op)
  from Cons.IH [of "ServeDNS env s r w"] ServeDNS_cache_dom [of env s r w] show ?case
    by (auto simp add: op A_query_names_Cons split: if_splits)
qed

lemma ServeDNS_relay_no_cache:
  "\<not> is_A_query r \<Longrightarrow>
   filter is_cache_event (new_events w (ServeDNS env s r w)) = [] \<and>
   NameCache (ServeDNS env s r w) = NameCache w \<and>
   filter is_Pack (new_events w (ServeDNS env s r w)) = [EvPack r]"
  by (cases rule: ServeDNS_cases [where r = r and env = env and s = s and w = w])
     (simp_all add: new_events_def filter_transport_events first_question_A_for_host_def)

lemma QueryOverHTTPS_posts:
  assumes "Pack env r = Inr wire"
  shows "\<exists>es. trace (snd (QueryOverHTTPS env r w)) = trace w @ es \<and>
     filter is_Post es = [EvPost CLOUDFLARE_DOH_URL ''application/dns-udpwireformat'' wire]"
proof (cases "fst (makeHttpsRequest env wire w)")
  case (Inl e)
  show ?thesis
    by (simp add: QueryOverHTTPS_transport_fail [OF assms Inl] emit_def record_sent_def)
next
  case resp: (Inr resp)
  show ?thesis
  proof (cases "Unpack env resp")
    case (Inl e)
    show ?thesis
      by (simp add: QueryOverHTTPS_unpack_fail [OF assms resp Inl] emit_def record_sent_def)
  next
    case (Inr m)
    show ?thesis
      by (simp add: QueryOverHTTPS_ok [OF assms resp Inr])
  qed
qed

lemma ServeDNS_relay_posts:
  assumes "\<not> is_A_query r" and "Pack env r = Inr wire"
  shows "filter is_Post (new_events w (ServeDNS env s r w)) =
     [EvPost CLOUDFLARE_DOH_URL ''application/dns-udpwireformat'' wire]"
proof -
  from QueryOverHTTPS_posts [OF assms(2), of w] obtain es where
    es: "trace (snd (QueryOverHTTPS env r w)) = trace w @ es"
      "filter is_Post es = [EvPost CLOUDFLARE_DOH_URL ''application/dns-udpwireformat'' wire]"
    by blast
  have "\<exists>m. trace (ServeDNS env s r w) = trace (snd (QueryOverHTTPS env r w)) @ [EvWriteMsg m]"
    by (cases "QueryOverHTTPS env r w")
       (simp add: ServeDNS_relay [OF assms(1)] WriteMsg_def SetReply_at_def HandleFailed_def
          emit_def split: sum.splits)
  then show ?thesis
    by (auto simp add: es new_events_def)
qed

text \<open>
  C2: over every sequence of queries, each cache write made is keyed by the name of the
  first question of an A-type query of the sequence, and the cache's keys stay within
  the initial keys and those names. Handling a query that has no question, or whose
  first question is not of type A, makes no cache read and no cache write and leaves the
  cache as it was; it calls \<^verbatim>\<open>QueryOverHTTPS\<close> once, so two such identical queries
  in a row are forwarded twice, each with its own POST when the query packs.
\<close>

theorem NameCache_only_A_queries:
  "set (cache_set_keys (new_events w (run s ops w))) \<subseteq> set (A_query_names ops) \<and>
   dom (NameCache (run s ops w)) \<subseteq> dom (NameCache w) \<union> set (A_query_names ops) \<and>
   (\<not> is_A_query r \<longrightarrow>
      filter is_cache_event (new_events w (ServeDNS env s r w)) = [] \<and>
      NameCache (ServeDNS env s r w) = NameCache w \<and>
      filter is_Pack (new_events w (run s [(env, r), (env', r)] w)) = [EvPack r, EvPack r]) \<and>
   (\<not> is_A_query r \<longrightarrow> Pack env r = Inr wire \<longrightarrow> Pack env' r = Inr wire' \<longrightarrow>
      filter is_Post (new_events w (run s [(env, r), (env', r)] w)) =
        [EvPost CLOUDFLARE_DOH_URL ''application/dns-udpwireformat'' wire,
         EvPost CLOUDFLARE_DOH_URL ''application/dns-udpwireformat'' wire'])"
proof -
  have two: "new_events w (run s [(env, r), (env', r)] w) =
      new_events w (ServeDNS env s r w) @
      new_events (ServeDNS env s r w) (ServeDNS env' s r (ServeDNS env s r w))"
    using new_events_run_Cons [of w s env r "[(env', r)]"]
      new_events_run_Cons [of "ServeDNS env s r w" s env' r "[]"]
    by (simp add: new_events_def)
  show ?thesis
    unfolding two
    by (simp add: run_cache_set_keys run_cache_dom ServeDNS_relay_no_cache
        ServeDNS_relay_posts)
qed

lemma env_ok_forward:
  "Pack env_ok r = Inr [1, 2, 3]"
  "fst (makeHttpsRequest env_ok [1, 2, 3] w) = Inr [4, 5, 6]"
  "Unpack env_ok [4, 5, 6] = Inr reply_example"
  by (rule env_Pack, rule env_transport, simp add: env_ok_def)

theorem NameCache_only_A_queries_witness:
  "set (cache_set_keys (new_events w_host
          (run s0 [(env_ok, q_aaaa), (env_ok, q_example), (env_ok, q_host)] w_host))) \<subseteq>
     {''example.com.'', ''cloudflare-dns.com.''} \<and>
   dom (NameCache (run s0 [(env_ok, q_aaaa), (env_ok, q_example), (env_ok, q_host)] w_host)) \<subseteq>
     {''example.com.'', ''cloudflare-dns.com.''} \<and>
   NameCache (ServeDNS env_ok s0 q_aaaa w_host) = Map.empty \<and>
   filter is_Post (new_events w_host (run s0 [(env_ok, q_aaaa), (env_ok, q_aaaa)] w_host)) =
     [EvPost CLOUDFLARE_DOH_URL ''application/dns-udpwireformat'' [1, 2, 3],
      EvPost CLOUDFLARE_DOH_URL ''application/dns-udpwireformat'' [1, 2, 3]]"
proof -
  have n: "A_query_names [(env_ok, q_aaaa), (env_ok, q_example), (env_ok, q_host)] =
      [''example.com.'', ''cloudflare-dns.com.'']"
    using q_host_first_host
    by (simp add: A_query_names_def q_aaaa_not_A q_example_A q_example_name
        first_question_A_for_host_def CLOUDFLARE_DOH_HOST_def)
  have c: "NameCache w_host = Map.empty"
    by (simp add: w_host_def)
  show ?thesis
    using NameCache_only_A_queries [of w_host s0
        "[(env_ok, q_aaaa), (env_ok, q_example), (env_ok, q_host)]" q_aaaa env_ok env_ok
        "[1, 2, 3]" "[1, 2, 3]"]
      q_aaaa_not_A env_ok_forward(1) [of q_aaaa]
    by (simp add: n c)
qed

text \<open>
  The spec's scenario: a first A-type query misses the cache and is forwarded; the same
  query, arriving before the entry expires, is answered from the cache with the same
  answer section and without a second forward.
\<close>

lemma cache_miss_then_hit:
  assumes "is_A_query r" and "Name (Question r ! 0) \<noteq> CLOUDFLARE_DOH_HOST"
    and "fst (cache_Get env (Name (Question r ! 0)) w) = None"
    and "Pack env r = Inr wire" and "fst (makeHttpsRequest env wire w) = Inr resp"
    and "Unpack env resp = Inr m"
    and "nowGet env' \<le> nowSet env + defaultExpiration"
  shows "new_events (ServeDNS env s r w) (ServeDNS env' s r (ServeDNS env s r w)) =
           [EvCacheGet (Name (Question r ! 0)), EvWriteMsg (SetReply (SetReply m r) r)] \<and>
         Answer (SetReply (SetReply m r) r) = Answer m"
proof -
  let ?w1 = "ServeDNS env s r w"
  have w1: "?w1 =
     w\<lparr>heap := (heap w)(nxt w := SetReply m r), nxt := Suc (nxt w),
       NameCache := (NameCache w)(Name (Question r ! 0) \<mapsto>
                      (nxt w, nowSet env + defaultExpiration)),
       trace := trace w @
         [EvCacheGet (Name (Question r ! 0)), EvPack r,
          EvPost CLOUDFLARE_DOH_URL ''application/dns-udpwireformat'' wire, EvUnpack resp,
          EvCacheSet (Name (Question r ! 0)) (nxt w), EvWriteMsg (SetReply m r)],
       sent_requests := sent_requests w @ client_requests env wire\<rparr>"
    by (rule ServeDNS_miss_forward_ok [OF assms(1-6)])
  have entry: "NameCache ?w1 (Name (Question r ! 0)) =
      Some (nxt w, nowSet env + defaultExpiration)"
    by (simp add: w1)
  have cell: "heap ?w1 (nxt w) = SetReply m r"
    by (simp add: w1)
  have "new_events ?w1 (ServeDNS env' s r ?w1) =
      [EvCacheGet (Name (Question r ! 0)), EvWriteMsg (SetReply (heap ?w1 (nxt w)) r)]"
    using ServeDNS_hit [OF assms(1,2) entry, of env' s] assms(7)
    by (simp add: new_events_def expired_def)
  moreover have "Answer (SetReply (SetReply m r) r) = Answer m"
    using SetReply_same_records [of m r] SetReply_same_records [of "SetReply m r" r]
    by (simp add: same_records_def)
  ultimately show ?thesis
    by (simp add: cell)
qed

end
